theory Spec2Isabelle
  imports Complex_Main "HOL-Library.Word"
begin

unbundle bit_operations_syntax

section \<open>External calls and outcomes\<close>

text \<open>
  The KMSDRM backend drives the display through EGL, GBM, the DRM ioctl wrappers and the
  SDL core. The model of a C function returns what the function returns, the program state
  it leaves, and the list of external calls it made, in order. The results of the external
  calls of one invocation are the fields of an environment record, so that every theorem
  holds for every behaviour of the drivers.
\<close>

type_synonym u32 = "32 word"
type_synonym gbm_bo = nat
type_synonym egl_sync = nat

text \<open>What \<^verbatim>\<open>KMSDRM_CreateCursor\<close> allocates.\<close>

datatype resource = CursorStruct | CursorDataStruct | BufferObject | StagingBuffer

record KMSDRM_PlaneInfo =
  info_plane :: nat
  info_crtc_id :: nat
  info_fb_id :: nat
  info_src_w :: int
  info_src_h :: int
  info_crtc_w :: int
  info_crtc_h :: int
  info_crtc_x :: int

datatype sdl_call =
    SDL_SetError string
  | SDL_EGL_SetError string string
  | printf string
  | KMSDRM_CreateSurfaces
  | eglCreateSyncKHR int
  | eglSwapBuffers
  | eglDupNativeFenceFDANDROID egl_sync
  | eglDestroySyncKHR egl_sync
  | gbm_surface_lock_front_buffer
  | KMSDRM_FBFromBO gbm_bo
  | drm_atomic_set_plane_props KMSDRM_PlaneInfo
  | add_connector_property string nat
  | add_crtc_property string int
  | add_plane_property string int
  | drm_atomic_commit bool
  | gbm_surface_release_buffer gbm_bo
  | eglWaitSyncKHR egl_sync
  | gbm_device_is_format_supported
  | SDL_OutOfMemory
  | SDL_calloc resource bool
  | SDL_malloc resource nat bool
  | SDL_free resource
  | drmGetCap string
  | gbm_bo_create nat nat bool
  | gbm_bo_destroy nat
  | gbm_bo_write nat "u32 list" nat
  | SDL_LockSurface
  | SDL_UnlockSurface
  | drmModeSetCursor int nat nat nat nat
  | drmModeSetCursor2 int nat nat nat nat int int
  | drmModeMoveCursor int nat int int
  | SDL_SendMouseMotion "nat option" nat int int int

text \<open>
  A C function either returns, or stops at a failed \<^verbatim>\<open>assert\<close>, or writes outside an
  allocation (undefined behaviour, kept apart as \<open>MemoryFault\<close>).
\<close>

datatype 'a outcome = Returned 'a | AssertionFailed | MemoryFault

text \<open>
  Modelled from the spec: \<^verbatim>\<open>SDL_SetError\<close> (SDL core, not part of these sources) records a
  message in the error channel and returns \<open>-1\<close>. The call is \<open>SDL_SetError msg\<close> in the call
  list, and \<open>SDL_SetError_ret\<close> is the value it returns.
\<close>

definition SDL_SetError_ret :: int where
  "SDL_SetError_ret = - 1"

section \<open>Frame presentation: SDL\_kmsdrmopengles.c\<close>

subsection \<open>KMSDRM\_GLES\_SetSwapInterval\<close>

record SDL_EGL_VideoData =
  egl_swapinterval :: int

record SDL_VideoDevice =
  egl_data :: "SDL_EGL_VideoData option"

definition KMSDRM_GLES_SetSwapInterval ::
  "SDL_VideoDevice \<Rightarrow> int \<Rightarrow> int \<times> SDL_VideoDevice \<times> sdl_call list" where
  "KMSDRM_GLES_SetSwapInterval this interval =
     (case egl_data this of
        None \<Rightarrow> (SDL_SetError_ret, this, [SDL_SetError ''EGL not initialized''])
      | Some egl \<Rightarrow>
          if interval = 0 \<or> interval = 1
          then (0, this\<lparr>egl_data := Some (egl\<lparr>egl_swapinterval := interval\<rparr>)\<rparr>, [])
          else (SDL_SetError_ret, this,
                [SDL_SetError ''Only swap intervals of 0 or 1 are supported'']))"

subsection \<open>Window and display data, external results\<close>

text \<open>
  The fields of \<^verbatim>\<open>SDL_WindowData\<close> and \<^verbatim>\<open>SDL_DisplayData\<close> that the two swap functions read
  or write (the structs are declared in a header that is not part of these sources). A null
  pointer is \<open>None\<close>. \<open>crtc\<close> stands for \<^verbatim>\<open>dispdata->crtc->crtc->crtc_id\<close>.
\<close>

record SDL_WindowData =
  egl_surface_dirty :: bool
  bo :: "gbm_bo option"
  next_bo :: "gbm_bo option"
  src_w :: int
  src_h :: int
  output_w :: int
  output_h :: int
  output_x :: int

record SDL_DisplayData =
  gpu_fence :: "egl_sync option"
  kms_fence :: "egl_sync option"
  kms_in_fence_fd :: int
  kms_out_fence_fd :: int
  display_plane :: nat
  crtc :: nat
  connector :: nat

record swap_state =
  windata :: SDL_WindowData
  dispdata :: SDL_DisplayData

text \<open>
  What the collaborators answer during one call. \<open>CreateSurfaces_effect\<close> is what
  \<^verbatim>\<open>KMSDRM_CreateSurfaces\<close> (not part of these sources) does to the window and display data.
  \<open>out_fence_fd_result\<close> is the descriptor the kernel stores through \<^verbatim>\<open>OUT_FENCE_PTR\<close> when
  a commit that carries that property succeeds.
\<close>

record gles_env =
  CreateSurfaces_effect :: "swap_state \<Rightarrow> swap_state"
  eglCreateSyncKHR_result :: "int \<Rightarrow> egl_sync option"
  eglSwapBuffers_result :: bool
  eglDupNativeFenceFD_result :: int
  lock_front_buffer_result :: "gbm_bo option"
  FBFromBO_result :: "gbm_bo \<Rightarrow> nat option"
  set_plane_props_result :: "KMSDRM_PlaneInfo \<Rightarrow> int"
  add_connector_property_result :: int
  add_crtc_property_result :: "string \<Rightarrow> int"
  add_plane_property_result :: int
  atomic_commit_result :: "bool \<Rightarrow> int"
  out_fence_fd_result :: int

definition EGL_NO_NATIVE_FENCE_FD_ANDROID :: int where
  "EGL_NO_NATIVE_FENCE_FD_ANDROID = - 1"

definition plane_info :: "swap_state \<Rightarrow> nat \<Rightarrow> KMSDRM_PlaneInfo" where
  "plane_info s fb =
     \<lparr>info_plane = display_plane (dispdata s), info_crtc_id = crtc (dispdata s),
      info_fb_id = fb, info_src_w = src_w (windata s), info_src_h = src_h (windata s),
      info_crtc_w = output_w (windata s), info_crtc_h = output_h (windata s),
      info_crtc_x = output_x (windata s)\<rparr>"

text \<open>The first statement of both swap functions: recreate the surfaces of a dirty window.\<close>

definition recreate_if_dirty :: "gles_env \<Rightarrow> swap_state \<Rightarrow> swap_state \<times> sdl_call list" where
  "recreate_if_dirty env s =
     (if egl_surface_dirty (windata s)
      then (CreateSurfaces_effect env s, [KMSDRM_CreateSurfaces])
      else (s, []))"

text \<open>
  The two property requests whose failure is only reported: each one is the call, and
  \<^verbatim>\<open>SDL_SetError\<close> when it returned a negative value.
\<close>

definition reconnect_props :: "gles_env \<Rightarrow> swap_state \<Rightarrow> sdl_call list" where
  "reconnect_props env s =
     [add_connector_property ''CRTC_ID'' (crtc (dispdata s))]
     @ (if add_connector_property_result env < 0
        then [SDL_SetError ''Failed to set CONNECTOR prop CRTC_ID to zero before buffer destruction'']
        else [])
     @ [add_crtc_property ''ACTIVE'' 1]
     @ (if add_crtc_property_result env ''ACTIVE'' < 0
        then [SDL_SetError ''Failed to set CRTC prop ACTIVE to zero before buffer destruction'']
        else [])"

text \<open>
  The fence properties, set only when an in-fence descriptor is present. The first failing
  request aborts the frame with its message. The value of \<^verbatim>\<open>OUT_FENCE_PTR\<close> is the address
  of \<^verbatim>\<open>dispdata->kms_out_fence_fd\<close>, written \<open>0\<close> in the call list.
\<close>

definition fence_props :: "gles_env \<Rightarrow> swap_state \<Rightarrow> string option \<times> sdl_call list" where
  "fence_props env s =
     (if kms_in_fence_fd (dispdata s) \<noteq> - 1
      then if add_crtc_property_result env ''OUT_FENCE_PTR'' < 0
           then (Some ''Failed to set CRTC OUT_FENCE_PTR prop'',
                 [add_crtc_property ''OUT_FENCE_PTR'' 0])
           else if add_plane_property_result env < 0
           then (Some ''Failed to set plane IN_FENCE_FD prop'',
                 [add_crtc_property ''OUT_FENCE_PTR'' 0,
                  add_plane_property ''IN_FENCE_FD'' (kms_in_fence_fd (dispdata s))])
           else (None,
                 [add_crtc_property ''OUT_FENCE_PTR'' 0,
                  add_plane_property ''IN_FENCE_FD'' (kms_in_fence_fd (dispdata s))])
      else (None, []))"

text \<open>\<^verbatim>\<open>if (windata->bo) KMSDRM_gbm_surface_release_buffer(windata->gs, windata->bo);\<close>\<close>

definition release_buffer :: "gbm_bo option \<Rightarrow> sdl_call list" where
  "release_buffer b = (case b of None \<Rightarrow> [] | Some old \<Rightarrow> [gbm_surface_release_buffer old])"

subsection \<open>KMSDRM\_GLES\_SwapWindow (asynchronous, triple buffering)\<close>

definition KMSDRM_GLES_SwapWindow ::
  "gles_env \<Rightarrow> swap_state \<Rightarrow> int outcome \<times> swap_state \<times> sdl_call list" where
  "KMSDRM_GLES_SwapWindow env s0 =
    (let (s1, c1) = recreate_if_dirty env s0;
         c2 = c1 @ [eglCreateSyncKHR EGL_NO_NATIVE_FENCE_FD_ANDROID]
     in case eglCreateSyncKHR_result env EGL_NO_NATIVE_FENCE_FD_ANDROID of
       None \<Rightarrow> (AssertionFailed, s1, c2)
     | Some gf \<Rightarrow>
      (let s2 = s1\<lparr>dispdata := (dispdata s1)\<lparr>gpu_fence := Some gf\<rparr>\<rparr>;
           c3 = c2 @ [eglSwapBuffers]
       in if \<not> eglSwapBuffers_result env
          then (Returned SDL_SetError_ret, s2, c3 @ [SDL_SetError ''Failed to swap EGL buffers''])
          else
      (let s3 = s2\<lparr>dispdata := (dispdata s2)\<lparr>kms_in_fence_fd := eglDupNativeFenceFD_result env\<rparr>\<rparr>;
           c4 = c3 @ [eglDupNativeFenceFDANDROID gf, eglDestroySyncKHR gf]
       in if kms_in_fence_fd (dispdata s3) = - 1 then (AssertionFailed, s3, c4)
          else
      (let s4 = s3\<lparr>windata := (windata s3)\<lparr>next_bo := lock_front_buffer_result env\<rparr>\<rparr>;
           c5 = c4 @ [gbm_surface_lock_front_buffer]
       in case next_bo (windata s4) of
         None \<Rightarrow> (Returned SDL_SetError_ret, s4, c5 @ [SDL_SetError ''Failed to lock frontbuffer''])
       | Some nb \<Rightarrow>
      (let c6 = c5 @ [KMSDRM_FBFromBO nb]
       in case FBFromBO_result env nb of
         None \<Rightarrow> (Returned SDL_SetError_ret, s4,
                  c6 @ [SDL_SetError ''Failed to get a new framebuffer from BO''])
       | Some fb \<Rightarrow>
      (let info = plane_info s4 fb;
           c7 = c6 @ [drm_atomic_set_plane_props info]
       in if set_plane_props_result env info \<noteq> 0
          then (Returned SDL_SetError_ret, s4,
                c7 @ [SDL_SetError ''Failed to request prop changes for setting plane buffer and CRTC''])
          else
      (let c8 = c7 @ reconnect_props env s4
       in case fence_props env s4 of
         (Some msg, cf) \<Rightarrow> (Returned SDL_SetError_ret, s4, c8 @ cf @ [SDL_SetError msg])
       | (None, cf) \<Rightarrow>
      (let c11 = c8 @ cf @ [drm_atomic_commit False];
           ret = atomic_commit_result env False
       in if ret \<noteq> 0
          then (Returned SDL_SetError_ret, s4,
                c11 @ [SDL_SetError ''Failed to issue atomic commit on pageflip''])
          else
      (let s5 = (if kms_in_fence_fd (dispdata s4) \<noteq> - 1
                 then s4\<lparr>dispdata := (dispdata s4)\<lparr>kms_out_fence_fd := out_fence_fd_result env\<rparr>\<rparr>
                 else s4);
           c12 = c11 @ release_buffer (bo (windata s5));
           s6 = s5\<lparr>windata := (windata s5)\<lparr>bo := next_bo (windata s5)\<rparr>\<rparr>;
           c13 = c12 @ [eglCreateSyncKHR (kms_out_fence_fd (dispdata s6))]
       in case eglCreateSyncKHR_result env (kms_out_fence_fd (dispdata s6)) of
         None \<Rightarrow> (AssertionFailed, s6, c13)
       | Some kf \<Rightarrow>
      (let s7 = s6\<lparr>dispdata := (dispdata s6)\<lparr>kms_fence := Some kf, kms_out_fence_fd := - 1\<rparr>\<rparr>
       in (Returned ret, s7, c13 @ [eglWaitSyncKHR kf])))))))))))"

subsection \<open>KMSDRM\_GLES\_SwapWindowDB (synchronous, double buffering)\<close>

definition KMSDRM_GLES_SwapWindowDB ::
  "gles_env \<Rightarrow> swap_state \<Rightarrow> int outcome \<times> swap_state \<times> sdl_call list" where
  "KMSDRM_GLES_SwapWindowDB env s0 =
    (let (s1, c1) = recreate_if_dirty env s0;
         c2 = c1 @ [eglSwapBuffers]
              @ (if \<not> eglSwapBuffers_result env
                 then [SDL_EGL_SetError ''Failed to swap EGL buffers'' ''eglSwapBuffers'',
                       printf ''SwapWindow() failed: %s\<newline>'']
                 else []);
         s2 = s1\<lparr>windata := (windata s1)\<lparr>next_bo := lock_front_buffer_result env\<rparr>\<rparr>;
         c3 = c2 @ [gbm_surface_lock_front_buffer]
     in case next_bo (windata s2) of
        None \<Rightarrow> (Returned SDL_SetError_ret, s2, c3 @ [SDL_SetError ''Failed to lock frontbuffer''])
      | Some nb \<Rightarrow>
      (let c4 = c3 @ [KMSDRM_FBFromBO nb]
       in case FBFromBO_result env nb of
         None \<Rightarrow> (Returned SDL_SetError_ret, s2,
                  c4 @ [SDL_SetError ''Failed to get a new framebuffer BO''])
       | Some fb \<Rightarrow>
      (let info = plane_info s2 fb;
           c5 = c4 @ [drm_atomic_set_plane_props info]
       in if set_plane_props_result env info \<noteq> 0
          then (Returned SDL_SetError_ret, s2,
                c5 @ [SDL_SetError ''Failed to request prop changes for setting plane buffer and CRTC''])
          else
      (let c6 = c5 @ reconnect_props env s2 @ [drm_atomic_commit True];
           ret = atomic_commit_result env True
       in if ret \<noteq> 0
          then (Returned SDL_SetError_ret, s2, c6 @ [SDL_SetError ''Failed to issue atomic commit''])
          else
      (let c7 = c6 @ release_buffer (bo (windata s2));
           s3 = s2\<lparr>windata := (windata s2)\<lparr>bo := next_bo (windata s2)\<rparr>\<rparr>
       in (Returned ret, s3, c7))))))"

subsection \<open>Reading a run of a swap function\<close>

text \<open>The calls made before the first occurrence of a given call.\<close>

definition calls_before :: "sdl_call \<Rightarrow> sdl_call list \<Rightarrow> sdl_call list" where
  "calls_before c cs = takeWhile (\<lambda>x. x \<noteq> c) cs"

text \<open>The releases of a front buffer among a list of calls, in order.\<close>

definition is_release :: "sdl_call \<Rightarrow> bool" where
  "is_release c = (case c of gbm_surface_release_buffer b \<Rightarrow> True | _ \<Rightarrow> False)"

definition releases :: "sdl_call list \<Rightarrow> sdl_call list" where
  "releases cs = filter is_release cs"

text \<open>
  The release discipline of the front buffer, for one run \<open>(r, s', cs)\<close> of a swap function
  whose commit is blocking or not, where \<open>w1\<close> is the window data when the frame starts
  (after the surfaces of a dirty window were recreated):
  \<^item> a failed commit releases nothing, leaves \<open>bo\<close> as it was and returns the error value;
  \<^item> a buffer is released only if it is the previous front buffer, and only after the new
    buffer was locked and the commit was issued and returned 0;
  \<^item> after a commit that returned 0, the previous front buffer, when there is one, has been
    released, once and after the commit, nothing else has been released, and the locked
    buffer is the recorded front buffer;
  \<^item> a run without a commit that returned 0 releases nothing and leaves \<open>bo\<close> as it was.
\<close>

definition front_buffer_discipline ::
  "bool \<Rightarrow> gles_env \<Rightarrow> SDL_WindowData \<Rightarrow> int outcome \<times> swap_state \<times> sdl_call list \<Rightarrow> bool" where
  "front_buffer_discipline blocking env w1 run =
     (case run of (r, s', cs) \<Rightarrow>
        (drm_atomic_commit blocking \<in> set cs \<and> atomic_commit_result env blocking \<noteq> 0 \<longrightarrow>
           (\<forall>b. gbm_surface_release_buffer b \<notin> set cs) \<and> bo (windata s') = bo w1
           \<and> r = Returned SDL_SetError_ret)
      \<and> (\<forall>b. gbm_surface_release_buffer b \<in> set cs \<longrightarrow>
             bo w1 = Some b
           \<and> gbm_surface_lock_front_buffer \<in> set (calls_before (gbm_surface_release_buffer b) cs)
           \<and> drm_atomic_commit blocking \<in> set (calls_before (gbm_surface_release_buffer b) cs)
           \<and> atomic_commit_result env blocking = 0
           \<and> lock_front_buffer_result env \<noteq> None)
      \<and> (drm_atomic_commit blocking \<in> set cs \<and> atomic_commit_result env blocking = 0 \<longrightarrow>
             lock_front_buffer_result env \<noteq> None
           \<and> bo (windata s') = lock_front_buffer_result env
           \<and> (\<forall>b. bo w1 = Some b \<longrightarrow> gbm_surface_release_buffer b \<in> set cs)
           \<and> releases cs = (case bo w1 of None \<Rightarrow> [] | Some b \<Rightarrow> [gbm_surface_release_buffer b]))
      \<and> (\<not> (drm_atomic_commit blocking \<in> set cs \<and> atomic_commit_result env blocking = 0) \<longrightarrow>
             releases cs = [] \<and> bo (windata s') = bo w1))"

text \<open>
  The answers of the collaborators with which a frame gets as far as its commit: in the
  double-buffer path the lock, the framebuffer and the plane properties succeed; the
  asynchronous path needs the fence, the swap, the fence descriptor and the two fence
  properties as well.
\<close>

definition frame_prepared :: "bool \<Rightarrow> gles_env \<Rightarrow> bool" where
  "frame_prepared blocking env =
     ((case lock_front_buffer_result env of
         None \<Rightarrow> False
       | Some nb \<Rightarrow> FBFromBO_result env nb \<noteq> None)
      \<and> (\<forall>info. set_plane_props_result env info = 0)
      \<and> (blocking
          \<or> (eglCreateSyncKHR_result env EGL_NO_NATIVE_FENCE_FD_ANDROID \<noteq> None
             \<and> eglSwapBuffers_result env
             \<and> eglDupNativeFenceFD_result env \<noteq> - 1
             \<and> 0 \<le> add_crtc_property_result env ''OUT_FENCE_PTR''
             \<and> 0 \<le> add_plane_property_result env)))"

subsection \<open>A concrete window, display and driver\<close>

definition window0 :: SDL_WindowData where
  "window0 = \<lparr>egl_surface_dirty = False, bo = Some 1, next_bo = None, src_w = 640, src_h = 480,
     output_w = 640, output_h = 480, output_x = 0\<rparr>"

definition display0 :: SDL_DisplayData where
  "display0 = \<lparr>gpu_fence = None, kms_fence = None, kms_in_fence_fd = - 1, kms_out_fence_fd = - 1,
     display_plane = 31, crtc = 41, connector = 51\<rparr>"

definition state0 :: swap_state where
  "state0 = \<lparr>windata = window0, dispdata = display0\<rparr>"

text \<open>A driver stack where every call succeeds; buffer 2 is the next front buffer.\<close>

definition env_ok :: gles_env where
  "env_ok = \<lparr>CreateSurfaces_effect = (\<lambda>s. s\<lparr>windata := (windata s)\<lparr>egl_surface_dirty := False\<rparr>\<rparr>),
     eglCreateSyncKHR_result = (\<lambda>fd. Some 7), eglSwapBuffers_result = True,
     eglDupNativeFenceFD_result = 5, lock_front_buffer_result = Some 2,
     FBFromBO_result = (\<lambda>b. Some 9), set_plane_props_result = (\<lambda>i. 0),
     add_connector_property_result = 0, add_crtc_property_result = (\<lambda>n. 0),
     add_plane_property_result = 0, atomic_commit_result = (\<lambda>b. 0), out_fence_fd_result = 6\<rparr>"

section \<open>Hardware cursor: SDL\_kmsdrmmouse.c\<close>

subsection \<open>Single-precision arithmetic\<close>

text \<open>
  \<^verbatim>\<open>alpha_premultiply_ARGB8888\<close> computes in C \<^verbatim>\<open>float\<close>: IEEE 754 binary32, every operation
  rounded to nearest with ties to even. A finite \<^verbatim>\<open>float\<close> is the real number it denotes, and
  an operation is the exact operation followed by \<open>binary32_round\<close>. The significand has 24
  bits and the least exponent of a normal number is \<open>-126\<close>, below which the spacing stays
  \<open>2 powi (-149)\<close>. Overflow to infinity is left out: no value of this file exceeds 255.
  This is C on the targets of this backend, where \<^verbatim>\<open>float\<close> expressions are evaluated in
  single precision (\<^verbatim>\<open>FLT_EVAL_METHOD\<close> 0).

  \<open>bit_length n\<close> is the number of binary digits of \<open>n\<close>, and \<open>binade x\<close> the exponent \<open>e\<close> with
  \<open>2 powi e \<le> x < 2 powi (e + 1)\<close> of a positive \<open>x\<close> (lemma \<open>binade_bounds\<close>).
\<close>

fun bit_length :: "nat \<Rightarrow> nat" where
  "bit_length n = (if n = 0 then 0 else Suc (bit_length (n div 2)))"

declare bit_length.simps [simp del]

definition binade :: "real \<Rightarrow> int" where
  "binade x = (if 1 \<le> x then int (bit_length (nat \<lfloor>x\<rfloor>)) - 1
               else - int (bit_length (nat (\<lceil>1 / x\<rceil> - 1))))"

definition round_half_even :: "real \<Rightarrow> int" where
  "round_half_even x =
     (let f = \<lfloor>x\<rfloor>; r = x - of_int f
      in if r < 1 / 2 then f else if 1 / 2 < r then f + 1
         else if even f then f else f + 1)"

definition binary32_round :: "real \<Rightarrow> real" where
  "binary32_round x =
     (if x = 0 then 0
      else let ulp = 2 powi (max (binade \<bar>x\<bar>) (- 126) - 23)
           in sgn x * of_int (round_half_even (\<bar>x\<bar> / ulp)) * ulp)"

text \<open>
  The conversions and operations of the C expression \<^verbatim>\<open>(float)A * ((float)R / 255)\<close>, and
  the conversion back on assignment to a \<^verbatim>\<open>uint32_t\<close>, which discards the fraction.
\<close>

definition float_of_uint32 :: "u32 \<Rightarrow> real" where
  "float_of_uint32 w = binary32_round (real (unat w))"

definition float_of_int :: "int \<Rightarrow> real" where
  "float_of_int i = binary32_round (real_of_int i)"

definition float_div :: "real \<Rightarrow> real \<Rightarrow> real" where
  "float_div x y = binary32_round (x / y)"

definition float_mul :: "real \<Rightarrow> real \<Rightarrow> real" where
  "float_mul x y = binary32_round (x * y)"

definition uint32_of_float :: "real \<Rightarrow> u32" where
  "uint32_of_float x = word_of_int (if 0 \<le> x then \<lfloor>x\<rfloor> else \<lceil>x\<rceil>)"

subsection \<open>alpha\_premultiply\_ARGB8888\<close>

text \<open>The shift counts \<^verbatim>\<open>3 << 3\<close>, \<^verbatim>\<open>2 << 3\<close>, \<^verbatim>\<open>1 << 3\<close>, \<^verbatim>\<open>0 << 3\<close> are 24, 16, 8 and 0.\<close>

definition alpha_premultiply_ARGB8888 :: "u32 \<Rightarrow> u32" where
  "alpha_premultiply_ARGB8888 pixel =
     (let A = drop_bit 24 pixel AND 0xFF;
          R = drop_bit 16 pixel AND 0xFF;
          G = drop_bit 8 pixel AND 0xFF;
          B = drop_bit 0 pixel AND 0xFF;
          R' = uint32_of_float (float_mul (float_of_uint32 A)
                 (float_div (float_of_uint32 R) (float_of_int 255)));
          G' = uint32_of_float (float_mul (float_of_uint32 A)
                 (float_div (float_of_uint32 G) (float_of_int 255)));
          B' = uint32_of_float (float_mul (float_of_uint32 A)
                 (float_div (float_of_uint32 B) (float_of_int 255)))
      in push_bit 24 A OR push_bit 16 R' OR push_bit 8 G' OR push_bit 0 B')"

text \<open>The four channels of a pixel as numbers, and the pixel of four channels.\<close>

definition alpha_of :: "u32 \<Rightarrow> nat" where
  "alpha_of p = unat (drop_bit 24 p AND 0xFF)"

definition red_of :: "u32 \<Rightarrow> nat" where
  "red_of p = unat (drop_bit 16 p AND 0xFF)"

definition green_of :: "u32 \<Rightarrow> nat" where
  "green_of p = unat (drop_bit 8 p AND 0xFF)"

definition blue_of :: "u32 \<Rightarrow> nat" where
  "blue_of p = unat (drop_bit 0 p AND 0xFF)"

definition ARGB8888 :: "nat \<Rightarrow> nat \<Rightarrow> nat \<Rightarrow> nat \<Rightarrow> u32" where
  "ARGB8888 a r g b =
     push_bit 24 (of_nat a) OR push_bit 16 (of_nat r) OR push_bit 8 (of_nat g) OR push_bit 0 (of_nat b)"

text \<open>
  The formula of the specification, for comparison with the code: every colour channel is
  the product with alpha divided by 255 and rounded to the nearest integer.
\<close>

definition claimed_premultiply :: "u32 \<Rightarrow> u32" where
  "claimed_premultiply p =
     ARGB8888 (alpha_of p)
       (nat (round (real (alpha_of p) * real (red_of p) / 255)))
       (nat (round (real (alpha_of p) * real (green_of p) / 255)))
       (nat (round (real (alpha_of p) * real (blue_of p) / 255)))"

subsection \<open>Cursor data\<close>

text \<open>
  \<^verbatim>\<open>KMSDRM_CursorData\<close> is declared in a header that is not part of these sources; its fields
  are taken from their uses. \<open>cursor_bo\<close>, \<open>cursor_w\<close> and \<open>cursor_h\<close> are the C fields \<^verbatim>\<open>bo\<close>,
  \<^verbatim>\<open>w\<close> and \<^verbatim>\<open>h\<close>, the last two of type \<^verbatim>\<open>int\<close>. A buffer object is known by its handle, its
  row stride in bytes and the descriptor of its device.
\<close>

record gbm_cursor_bo =
  bo_handle :: nat
  bo_stride :: nat
  bo_device_fd :: int

record KMSDRM_CursorData =
  cursor_bo :: "gbm_cursor_bo option"
  crtc_id :: nat
  hot_x :: int
  hot_y :: int
  cursor_w :: int
  cursor_h :: int

text \<open>
  The conversions between the integer types that the cursor size passes through: the
  \<^verbatim>\<open>uint64_t\<close> that \<^verbatim>\<open>drmGetCap\<close> stores, the \<^verbatim>\<open>uint32_t\<close> parameters of \<^verbatim>\<open>gbm_bo_create\<close> and
  \<^verbatim>\<open>drmModeSetCursor\<close>, and the \<^verbatim>\<open>int\<close> fields of the cursor data. A conversion to an unsigned
  type keeps the value modulo \<open>2 ^ 32\<close>; the conversion to \<^verbatim>\<open>int\<close> keeps the low 32 bits as a
  two's complement number.
\<close>

definition uint32_of_uint64 :: "nat \<Rightarrow> nat" where
  "uint32_of_uint64 n = n mod 2 ^ 32"

definition int_of_uint64 :: "nat \<Rightarrow> int" where
  "int_of_uint64 n = sint (word_of_nat n :: u32)"

definition uint32_of_int :: "int \<Rightarrow> nat" where
  "uint32_of_int i = nat (i mod 2 ^ 32)"

record SDL_Cursor =
  driverdata :: "KMSDRM_CursorData option"

record SDL_Surface =
  surface_format_ARGB8888 :: bool
  surface_w :: nat
  surface_h :: nat
  surface_pitch :: nat
  surface_pixels :: "u32 list"
  surface_must_lock :: bool

subsection \<open>KMSDRM\_CreateCursor\<close>

text \<open>
  What the drivers and the allocator answer during one call. \<open>drmGetCap_width\<close> and
  \<open>drmGetCap_height\<close> are the return value of \<^verbatim>\<open>drmGetCap\<close> and the value it stores.
  \<open>SDL_assert_enabled\<close> says whether the build compiles \<^verbatim>\<open>SDL_assert\<close> in; when it does not,
  the two assertions on the surface are no code at all.
\<close>

record create_env =
  SDL_assert_enabled :: bool
  format_supported :: bool
  calloc_cursor_ok :: bool
  calloc_curdata_ok :: bool
  drmGetCap_width :: "int \<times> nat"
  drmGetCap_height :: "int \<times> nat"
  gbm_bo_create_result :: "nat \<Rightarrow> nat \<Rightarrow> gbm_cursor_bo option"
  malloc_ok :: "nat \<Rightarrow> bool"
  LockSurface_result :: int
  gbm_bo_write_result :: int

text \<open>\<^verbatim>\<open>for (int i = lo; i < n; i++) body\<close>, where the body may fault.\<close>

function for_loop :: "nat \<Rightarrow> nat \<Rightarrow> (nat \<Rightarrow> 'a \<Rightarrow> 'a option) \<Rightarrow> 'a \<Rightarrow> 'a option" where
  "for_loop i n body s =
     (if i < n
      then (case body i s of None \<Rightarrow> None | Some s' \<Rightarrow> for_loop (Suc i) n body s')
      else Some s)"
  by pat_completeness auto
termination
  by (relation "measure (\<lambda>(i, n, body, s). n - i)") auto

declare for_loop.simps [simp del]

text \<open>
  The staging buffer is a list of 32-bit cells, since \<^verbatim>\<open>buffer\<close> is a \<^verbatim>\<open>uint32_t *\<close> and every
  access moves one whole pixel. The body of the inner loop reads the source pixel
  \<^verbatim>\<open>i * surface->w + j\<close>, converts it and copies it to the cell \<^verbatim>\<open>i * curdata->w + j\<close>, an
  \<^verbatim>\<open>int\<close> that may be negative. A read or a write outside its array is \<open>None\<close>.
\<close>

definition copy_pixel :: "SDL_Surface \<Rightarrow> int \<Rightarrow> nat \<Rightarrow> nat \<Rightarrow> u32 list \<Rightarrow> u32 list option" where
  "copy_pixel surface curdata_w i j buffer =
     (if i * surface_w surface + j < length (surface_pixels surface)
         \<and> 0 \<le> int i * curdata_w + int j
         \<and> int i * curdata_w + int j < int (length buffer)
      then Some (buffer[nat (int i * curdata_w + int j) :=
                   alpha_premultiply_ARGB8888 (surface_pixels surface ! (i * surface_w surface + j))])
      else None)"

definition copy_surface :: "SDL_Surface \<Rightarrow> int \<Rightarrow> u32 list \<Rightarrow> u32 list option" where
  "copy_surface surface curdata_w buffer =
     for_loop 0 (surface_h surface)
       (\<lambda>i. for_loop 0 (surface_w surface) (copy_pixel surface curdata_w i)) buffer"

text \<open>The \<^verbatim>\<open>cleanup:\<close> label, given whether the staging buffer and the buffer object exist.\<close>

definition cleanup :: "bool \<Rightarrow> gbm_cursor_bo option \<Rightarrow> sdl_call list" where
  "cleanup buffer b =
     (if buffer then [SDL_free StagingBuffer] else [])
     @ [SDL_free CursorStruct]
     @ (case b of None \<Rightarrow> [] | Some x \<Rightarrow> [gbm_bo_destroy (bo_handle x)])
     @ [SDL_free CursorDataStruct]"

definition KMSDRM_CreateCursor ::
  "create_env \<Rightarrow> SDL_Surface \<Rightarrow> int \<Rightarrow> int \<Rightarrow> SDL_Cursor option outcome \<times> sdl_call list" where
  "KMSDRM_CreateCursor env surface hx hy =
    (if SDL_assert_enabled env
        \<and> (\<not> surface_format_ARGB8888 surface \<or> surface_pitch surface \<noteq> surface_w surface * 4)
     then (AssertionFailed, [])
     else if \<not> format_supported env
     then (Returned None,
           [gbm_device_is_format_supported, printf ''Unsupported pixel format for cursor\<newline>''])
     else if \<not> calloc_cursor_ok env
     then (Returned None,
           [gbm_device_is_format_supported, SDL_calloc CursorStruct False, SDL_OutOfMemory])
     else if \<not> calloc_curdata_ok env
     then (Returned None,
           [gbm_device_is_format_supported, SDL_calloc CursorStruct True,
            SDL_calloc CursorDataStruct False, SDL_OutOfMemory, SDL_free CursorStruct])
     else
    (let c0 = [gbm_device_is_format_supported, SDL_calloc CursorStruct True,
               SDL_calloc CursorDataStruct True];
         c1 = c0 @ [drmGetCap ''DRM_CAP_CURSOR_WIDTH'']
              @ (if fst (drmGetCap_width env) = 0 then [drmGetCap ''DRM_CAP_CURSOR_HEIGHT'']
                 else [])
     in if fst (drmGetCap_width env) \<noteq> 0 \<or> fst (drmGetCap_height env) \<noteq> 0
        then (Returned None,
              c1 @ [SDL_SetError ''Could not get the recommended GBM cursor size'']
              @ cleanup False None)
        else
    (let usable_cursor_w = snd (drmGetCap_width env);
         usable_cursor_h = snd (drmGetCap_height env)
     in if usable_cursor_w = 0 \<or> usable_cursor_w = 0
        then (Returned None,
              c1 @ [SDL_SetError ''Could not get an usable GBM cursor size'']
              @ cleanup False None)
        else
    (let curdata = \<lparr>cursor_bo = None, crtc_id = 0, hot_x = hx, hot_y = hy,
                    cursor_w = int_of_uint64 usable_cursor_w,
                    cursor_h = int_of_uint64 usable_cursor_h\<rparr>;
         created = gbm_bo_create_result env (uint32_of_uint64 usable_cursor_w)
                     (uint32_of_uint64 usable_cursor_h);
         c2 = c1 @ [gbm_bo_create (uint32_of_uint64 usable_cursor_w)
                      (uint32_of_uint64 usable_cursor_h) (created \<noteq> None)]
     in case created of
        None \<Rightarrow> (Returned None,
                 c2 @ [SDL_SetError ''Could not create GBM cursor BO''] @ cleanup False None)
      | Some b \<Rightarrow>
    (let bufsize = (bo_stride b * uint32_of_int (cursor_h curdata)) mod 2 ^ 32;
         c3 = c2 @ [SDL_malloc StagingBuffer bufsize (malloc_ok env bufsize)]
     in if \<not> malloc_ok env bufsize
        then (Returned None, c3 @ [SDL_OutOfMemory] @ cleanup False (Some b))
        else
    (let c4 = c3 @ (if surface_must_lock surface then [SDL_LockSurface] else [])
     in if surface_must_lock surface \<and> LockSurface_result env < 0
        then (Returned None, c4 @ cleanup True (Some b))
        else
    (case copy_surface surface (cursor_w curdata) (replicate (bufsize div 4) 0) of
        None \<Rightarrow> (MemoryFault, c4)
      | Some buffer \<Rightarrow>
    (let c5 = c4 @ (if surface_must_lock surface then [SDL_UnlockSurface] else [])
              @ [gbm_bo_write (bo_handle b) buffer bufsize]
     in if gbm_bo_write_result env \<noteq> 0
        then (Returned None,
              c5 @ [SDL_SetError ''Could not write to GBM cursor BO''] @ cleanup True (Some b))
        else (Returned (Some \<lparr>driverdata = Some (curdata\<lparr>cursor_bo := Some b\<rparr>)\<rparr>),
              c5 @ [SDL_free StagingBuffer])))))))))"

text \<open>
  The resources that a list of calls leaves allocated: every successful allocation adds
  one, every release removes it.
\<close>

definition track :: "resource list \<Rightarrow> sdl_call \<Rightarrow> resource list" where
  "track held c =
     (case c of
        SDL_calloc r ok \<Rightarrow> if ok then r # held else held
      | SDL_malloc r n ok \<Rightarrow> if ok then r # held else held
      | gbm_bo_create w h ok \<Rightarrow> if ok then BufferObject # held else held
      | SDL_free r \<Rightarrow> remove1 r held
      | gbm_bo_destroy h \<Rightarrow> remove1 BufferObject held
      | _ \<Rightarrow> held)"

definition live_resources :: "sdl_call list \<Rightarrow> resource list" where
  "live_resources cs = foldl track [] cs"

subsection \<open>Mouse, cursors and displays\<close>

text \<open>
  The global state the cursor functions work on. Cursors live in a store indexed by their
  address, because \<^verbatim>\<open>mouse->cur_cursor\<close> and the argument of \<^verbatim>\<open>KMSDRM_ShowCursor\<close> may be the
  same object. \<open>mouse_x\<close> and \<open>mouse_y\<close> are the fields \<^verbatim>\<open>x\<close> and \<^verbatim>\<open>y\<close> of \<^verbatim>\<open>SDL_Mouse\<close>, the tracked
  pointer position. \<open>display_for_window\<close> is \<^verbatim>\<open>SDL_GetDisplayForWindow\<close>, and
  \<open>display_crtc_id\<close> the field \<^verbatim>\<open>crtc_id\<close> of the display's driver data.
\<close>

record SDL_Mouse =
  focus :: "nat option"
  cur_cursor :: "nat option"
  mouseID :: nat
  mouse_x :: int
  mouse_y :: int

record cursor_display_data =
  display_crtc_id :: nat

record SDL_VideoDisplay =
  display_driverdata :: "cursor_display_data option"

record cursor_state =
  mouse :: "SDL_Mouse option"
  cursor_store :: "nat \<Rightarrow> SDL_Cursor"
  display_for_window :: "nat \<Rightarrow> SDL_VideoDisplay option"
  drm_fd :: int

text \<open>The return values of the DRM cursor calls, by controller and buffer handle.\<close>

record cursor_env =
  drmModeSetCursor_result :: "nat \<Rightarrow> nat \<Rightarrow> int"
  drmModeSetCursor2_result :: "nat \<Rightarrow> nat \<Rightarrow> int"
  drmModeMoveCursor_result :: "nat \<Rightarrow> int \<Rightarrow> int \<Rightarrow> int"

text \<open>\<^verbatim>\<open>mouse->cur_cursor && mouse->cur_cursor->driverdata\<close>, with the cursor's address.\<close>

definition current_curdata :: "cursor_state \<Rightarrow> SDL_Mouse \<Rightarrow> (nat \<times> KMSDRM_CursorData) option" where
  "current_curdata s m =
     (case cur_cursor m of
        None \<Rightarrow> None
      | Some p \<Rightarrow> (case driverdata (cursor_store s p) of
                     None \<Rightarrow> None
                   | Some curdata \<Rightarrow> Some (p, curdata)))"

text \<open>The assignment \<^verbatim>\<open>curdata->crtc_id = v\<close> for the cursor at address \<open>p\<close>.\<close>

definition set_crtc_id :: "nat \<Rightarrow> nat \<Rightarrow> cursor_state \<Rightarrow> cursor_state" where
  "set_crtc_id p v s =
     s\<lparr>cursor_store := (cursor_store s)
          (p := (cursor_store s p)\<lparr>driverdata :=
                  map_option (\<lambda>curdata. curdata\<lparr>crtc_id := v\<rparr>) (driverdata (cursor_store s p))\<rparr>)\<rparr>"

text \<open>
  The display of the focused window and its driver data, as both are resolved at the start
  of \<^verbatim>\<open>KMSDRM_ShowCursor\<close>; and the controller recorded as the owner of a cursor.
\<close>

definition focus_display :: "cursor_state \<Rightarrow> SDL_Mouse \<Rightarrow> SDL_VideoDisplay option" where
  "focus_display s m = (case focus m of None \<Rightarrow> None | Some w \<Rightarrow> display_for_window s w)"

definition focus_dispdata :: "cursor_state \<Rightarrow> SDL_Mouse \<Rightarrow> cursor_display_data option" where
  "focus_dispdata s m =
     (case focus_display s m of None \<Rightarrow> None | Some d \<Rightarrow> display_driverdata d)"

definition owning_crtc :: "cursor_state \<Rightarrow> nat \<Rightarrow> nat option" where
  "owning_crtc s p = map_option crtc_id (driverdata (cursor_store s p))"

definition pointer_position :: "cursor_state \<Rightarrow> (int \<times> int) option" where
  "pointer_position s = map_option (\<lambda>m. (mouse_x m, mouse_y m)) (mouse s)"

subsection \<open>KMSDRM\_ShowCursor\<close>

text \<open>The second half of hiding: \<^verbatim>\<open>otherwise if possible, hide global cursor\<close>.\<close>

definition hide_display_cursor ::
  "cursor_env \<Rightarrow> cursor_state \<Rightarrow> cursor_display_data option \<Rightarrow> int \<times> cursor_state \<times> sdl_call list" where
  "hide_display_cursor env s display_data =
     (case display_data of
        None \<Rightarrow> (SDL_SetError_ret, s, [SDL_SetError ''Couldn't find cursor to hide.''])
      | Some dd \<Rightarrow>
          if display_crtc_id dd \<noteq> 0
          then (let ret = drmModeSetCursor_result env (display_crtc_id dd) 0;
                    c = [drmModeSetCursor (drm_fd s) (display_crtc_id dd) 0 0 0]
                in if ret \<noteq> 0
                   then (ret, s, c @ [SDL_SetError
                           ''Could not hide display's cursor with drmModeSetCursor().''])
                   else (0, s, c))
          else (SDL_SetError_ret, s, [SDL_SetError ''Couldn't find cursor to hide.'']))"

definition KMSDRM_ShowCursor ::
  "cursor_env \<Rightarrow> nat option \<Rightarrow> cursor_state \<Rightarrow> int \<times> cursor_state \<times> sdl_call list" where
  "KMSDRM_ShowCursor env cursor s =
    (case mouse s of
       None \<Rightarrow> (SDL_SetError_ret, s, [SDL_SetError ''No mouse.''])
     | Some m \<Rightarrow>
    (let display = focus_display s m;
         display_data = focus_dispdata s m
     in case cursor of
       None \<Rightarrow>
        (case current_curdata s m of
           None \<Rightarrow> hide_display_cursor env s display_data
         | Some (p, curdata) \<Rightarrow>
             if crtc_id curdata \<noteq> 0
             then (let ret = drmModeSetCursor_result env (crtc_id curdata) 0;
                       c = [drmModeSetCursor (drm_fd s) (crtc_id curdata) 0 0 0]
                   in if ret \<noteq> 0
                      then (ret, s, c @ [SDL_SetError
                              ''Could not hide current cursor with drmModeSetCursor().''])
                      else (0, set_crtc_id p 0 s, c))
             else hide_display_cursor env s display_data)
     | Some cp \<Rightarrow>
        (case display of
           None \<Rightarrow> (SDL_SetError_ret, s, [SDL_SetError ''Could not get display for mouse.''])
         | Some d \<Rightarrow>
        (case display_data of
           None \<Rightarrow> (SDL_SetError_ret, s, [SDL_SetError ''Could not get display driverdata.''])
         | Some dd \<Rightarrow>
        (case driverdata (cursor_store s cp) of
           None \<Rightarrow> (SDL_SetError_ret, s, [SDL_SetError ''Cursor not initialized properly.''])
         | Some curdata \<Rightarrow>
        (case cursor_bo curdata of
           None \<Rightarrow> (SDL_SetError_ret, s, [SDL_SetError ''Cursor not initialized properly.''])
         | Some b \<Rightarrow>
        (let ret = (if hot_x curdata = 0 \<and> hot_y curdata = 0
                    then drmModeSetCursor_result env (display_crtc_id dd) (bo_handle b)
                    else drmModeSetCursor2_result env (display_crtc_id dd) (bo_handle b));
             c = (if hot_x curdata = 0 \<and> hot_y curdata = 0
                  then [drmModeSetCursor (drm_fd s) (display_crtc_id dd) (bo_handle b)
                          (uint32_of_int (cursor_w curdata)) (uint32_of_int (cursor_h curdata))]
                  else [drmModeSetCursor2 (drm_fd s) (display_crtc_id dd) (bo_handle b)
                          (uint32_of_int (cursor_w curdata)) (uint32_of_int (cursor_h curdata))
                          (hot_x curdata) (hot_y curdata)])
         in if ret \<noteq> 0
            then (ret, s, c @ [SDL_SetError ''drmModeSetCursor failed.''])
            else (0, set_crtc_id cp (display_crtc_id dd) s, c))))))))"

subsection \<open>KMSDRM\_WarpMouseGlobal and KMSDRM\_WarpMouse\<close>

text \<open>
  Modelled from the spec: \<^verbatim>\<open>SDL_SendMouseMotion\<close> (SDL events subsystem, not part of these
  sources), called with \<^verbatim>\<open>relative = 0\<close>, makes \<open>(x, y)\<close> the tracked pointer position.
\<close>

definition SDL_SendMouseMotion_effect :: "int \<Rightarrow> int \<Rightarrow> cursor_state \<Rightarrow> cursor_state" where
  "SDL_SendMouseMotion_effect x y s =
     s\<lparr>mouse := map_option (\<lambda>m. m\<lparr>mouse_x := x, mouse_y := y\<rparr>) (mouse s)\<rparr>"

definition KMSDRM_WarpMouseGlobal ::
  "cursor_env \<Rightarrow> int \<Rightarrow> int \<Rightarrow> cursor_state \<Rightarrow> int \<times> cursor_state \<times> sdl_call list" where
  "KMSDRM_WarpMouseGlobal env x y s =
    (case mouse s of
       None \<Rightarrow> (SDL_SetError_ret, s, [SDL_SetError ''No mouse or current cursor.''])
     | Some m \<Rightarrow>
    (case current_curdata s m of
       None \<Rightarrow> (SDL_SetError_ret, s, [SDL_SetError ''No mouse or current cursor.''])
     | Some (p, curdata) \<Rightarrow>
    (let s1 = SDL_SendMouseMotion_effect x y s;
         c1 = [SDL_SendMouseMotion (focus m) (mouseID m) 0 x y]
     in case cursor_bo curdata of
       None \<Rightarrow> (SDL_SetError_ret, s1, c1 @ [SDL_SetError ''Cursor not initialized properly.''])
     | Some b \<Rightarrow>
         if crtc_id curdata \<noteq> 0
         then (let ret = drmModeMoveCursor_result env (crtc_id curdata) x y;
                   c2 = c1 @ [drmModeMoveCursor (bo_device_fd b) (crtc_id curdata) x y]
               in (ret, s1, c2 @ (if ret \<noteq> 0 then [SDL_SetError ''drmModeMoveCursor() failed.'']
                                   else [])))
         else (SDL_SetError_ret, s1, c1 @ [SDL_SetError ''Cursor is not currently shown.'']))))"

text \<open>The window-scoped warp returns nothing; what remains of a call is its effect.\<close>

definition KMSDRM_WarpMouse ::
  "cursor_env \<Rightarrow> nat \<Rightarrow> int \<Rightarrow> int \<Rightarrow> cursor_state \<Rightarrow> cursor_state \<times> sdl_call list" where
  "KMSDRM_WarpMouse env window x y s = snd (KMSDRM_WarpMouseGlobal env x y s)"

subsection \<open>A concrete mouse, cursor and driver\<close>

text \<open>
  A 64 by 64 cursor that is uploaded and not shown, a mouse whose current cursor it is, a
  focused window on a display with controller 41, and a driver whose calls all succeed.
\<close>

definition cursor0 :: SDL_Cursor where
  "cursor0 = \<lparr>driverdata = Some \<lparr>cursor_bo = Some \<lparr>bo_handle = 3, bo_stride = 256, bo_device_fd = 4\<rparr>,
     crtc_id = 0, hot_x = 0, hot_y = 0, cursor_w = 64, cursor_h = 64\<rparr>\<rparr>"

definition mouse0 :: SDL_Mouse where
  "mouse0 = \<lparr>focus = Some 1, cur_cursor = Some 10, mouseID = 0, mouse_x = 0, mouse_y = 0\<rparr>"

definition cursor_state0 :: cursor_state where
  "cursor_state0 = \<lparr>mouse = Some mouse0, cursor_store = (\<lambda>p. cursor0),
     display_for_window = (\<lambda>w. Some \<lparr>display_driverdata = Some \<lparr>display_crtc_id = 41\<rparr>\<rparr>),
     drm_fd = 4\<rparr>"

definition cursor_env_ok :: cursor_env where
  "cursor_env_ok = \<lparr>drmModeSetCursor_result = (\<lambda>c h. 0), drmModeSetCursor2_result = (\<lambda>c h. 0),
     drmModeMoveCursor_result = (\<lambda>c x y. 0)\<rparr>"

text \<open>
  A driver that recommends a 64 by 64 cursor, creates buffer objects with tightly packed
  rows and never fails; and an ARGB8888 surface of given size and pixels.
\<close>

definition create_env_ok :: create_env where
  "create_env_ok = \<lparr>SDL_assert_enabled = True, format_supported = True, calloc_cursor_ok = True, calloc_curdata_ok = True,
     drmGetCap_width = (0, 64), drmGetCap_height = (0, 64),
     gbm_bo_create_result = (\<lambda>w h. Some \<lparr>bo_handle = 3, bo_stride = 4 * w, bo_device_fd = 4\<rparr>),
     malloc_ok = (\<lambda>n. True), LockSurface_result = 0, gbm_bo_write_result = 0\<rparr>"

definition surface_of :: "nat \<Rightarrow> nat \<Rightarrow> u32 list \<Rightarrow> SDL_Surface" where
  "surface_of w h px = \<lparr>surface_format_ARGB8888 = True, surface_w = w, surface_h = h,
     surface_pitch = w * 4, surface_pixels = px, surface_must_lock = False\<rparr>"

section \<open>Theorems\<close>

text \<open>
  C10. \<open>KMSDRM_GLES_SetSwapInterval\<close> stores the interval and returns 0 exactly when EGL is
  initialised and the interval is 0 or 1. In every other case it returns the error value,
  reports an error, and leaves the device, and so the stored swap interval, unchanged.
\<close>

theorem SetSwapInterval_iff:
  "(fst (KMSDRM_GLES_SetSwapInterval this interval) = 0 \<longleftrightarrow>
      egl_data this \<noteq> None \<and> (interval = 0 \<or> interval = 1))
   \<and> (fst (KMSDRM_GLES_SetSwapInterval this interval) = 0 \<longrightarrow>
        map_option egl_swapinterval
          (egl_data (fst (snd (KMSDRM_GLES_SetSwapInterval this interval)))) = Some interval)
   \<and> (fst (KMSDRM_GLES_SetSwapInterval this interval) \<noteq> 0 \<longrightarrow>
        fst (KMSDRM_GLES_SetSwapInterval this interval) = SDL_SetError_ret
        \<and> fst (snd (KMSDRM_GLES_SetSwapInterval this interval)) = this
        \<and> (\<exists>msg. snd (snd (KMSDRM_GLES_SetSwapInterval this interval)) = [SDL_SetError msg]))"
  by (cases "egl_data this")
     (simp_all add: KMSDRM_GLES_SetSwapInterval_def SDL_SetError_ret_def)

theorem SetSwapInterval_iff_witness:
  "fst (KMSDRM_GLES_SetSwapInterval \<lparr>egl_data = Some \<lparr>egl_swapinterval = 0\<rparr>\<rparr> 1) = 0
   \<and> map_option egl_swapinterval
        (egl_data (fst (snd (KMSDRM_GLES_SetSwapInterval
           \<lparr>egl_data = Some \<lparr>egl_swapinterval = 0\<rparr>\<rparr> 1)))) = Some 1
   \<and> fst (KMSDRM_GLES_SetSwapInterval \<lparr>egl_data = Some \<lparr>egl_swapinterval = 1\<rparr>\<rparr> 2) = - 1
   \<and> fst (snd (KMSDRM_GLES_SetSwapInterval \<lparr>egl_data = Some \<lparr>egl_swapinterval = 1\<rparr>\<rparr> 2))
       = \<lparr>egl_data = Some \<lparr>egl_swapinterval = 1\<rparr>\<rparr>"
  using SetSwapInterval_iff [of "\<lparr>egl_data = Some \<lparr>egl_swapinterval = 0\<rparr>\<rparr>" 1]
    SetSwapInterval_iff [of "\<lparr>egl_data = Some \<lparr>egl_swapinterval = 1\<rparr>\<rparr>" 2]
  by (simp add: SDL_SetError_ret_def)

subsection \<open>Frame presentation\<close>

lemmas swap_defs = KMSDRM_GLES_SwapWindow_def KMSDRM_GLES_SwapWindowDB_def recreate_if_dirty_def
  reconnect_props_def fence_props_def release_buffer_def plane_info_def
  EGL_NO_NATIVE_FENCE_FD_ANDROID_def SDL_SetError_ret_def

lemmas example_defs = env_ok_def state0_def window0_def display0_def

lemma reconnect_props_calls [simp]:
  "gbm_surface_release_buffer b \<notin> set (reconnect_props env s)"
  "drm_atomic_commit k \<notin> set (reconnect_props env s)"
  "gbm_surface_lock_front_buffer \<notin> set (reconnect_props env s)"
  by (simp_all add: reconnect_props_def)

lemma fence_props_calls [simp]:
  "gbm_surface_release_buffer b \<notin> set (snd (fence_props env s))"
  "drm_atomic_commit k \<notin> set (snd (fence_props env s))"
  "gbm_surface_lock_front_buffer \<notin> set (snd (fence_props env s))"
  by (simp_all add: fence_props_def)

lemma recreate_if_dirty_calls [simp]:
  "gbm_surface_release_buffer b \<notin> set (snd (recreate_if_dirty env s))"
  "drm_atomic_commit k \<notin> set (snd (recreate_if_dirty env s))"
  "gbm_surface_lock_front_buffer \<notin> set (snd (recreate_if_dirty env s))"
  by (simp_all add: recreate_if_dirty_def)

lemma calls_before_simps [simp]:
  "calls_before c [] = []"
  "calls_before c (x # xs) = (if x = c then [] else x # calls_before c xs)"
  "c \<notin> set xs \<Longrightarrow> calls_before c (xs @ ys) = xs @ calls_before c ys"
  by (induction xs) (auto simp: calls_before_def)

lemma releases_simps [simp]:
  "releases [] = []"
  "releases (c # cs) = (if is_release c then c # releases cs else releases cs)"
  "releases (xs @ ys) = releases xs @ releases ys"
  by (simp_all add: releases_def)

lemma helper_releases [simp]:
  "releases (reconnect_props env s) = []"
  "releases (snd (fence_props env s)) = []"
  "releases (snd (recreate_if_dirty env s)) = []"
  by (simp_all add: reconnect_props_def fence_props_def recreate_if_dirty_def is_release_def)

lemmas run_defs = front_buffer_discipline_def Let_def release_buffer_def
  EGL_NO_NATIVE_FENCE_FD_ANDROID_def case_prod_beta is_release_def

lemma SwapWindow_discipline:
  "front_buffer_discipline False env (windata (fst (recreate_if_dirty env s)))
     (KMSDRM_GLES_SwapWindow env s)"
  by (simp add: run_defs KMSDRM_GLES_SwapWindow_def split: option.splits)

lemma SwapWindowDB_discipline:
  "front_buffer_discipline True env (windata (fst (recreate_if_dirty env s)))
     (KMSDRM_GLES_SwapWindowDB env s)"
  by (simp add: run_defs KMSDRM_GLES_SwapWindowDB_def split: option.splits)

lemma SwapWindow_commits:
  "frame_prepared False env \<Longrightarrow>
     drm_atomic_commit False \<in> set (snd (snd (KMSDRM_GLES_SwapWindow env s)))"
  by (auto simp: frame_prepared_def KMSDRM_GLES_SwapWindow_def Let_def case_prod_beta
      fence_props_def EGL_NO_NATIVE_FENCE_FD_ANDROID_def split: option.splits)

lemma SwapWindowDB_commits:
  "frame_prepared True env \<Longrightarrow>
     drm_atomic_commit True \<in> set (snd (snd (KMSDRM_GLES_SwapWindowDB env s)))"
  by (auto simp: frame_prepared_def KMSDRM_GLES_SwapWindowDB_def Let_def case_prod_beta
      split: option.splits)

text \<open>
  C1. In \<open>KMSDRM_GLES_SwapWindow\<close> and in \<open>KMSDRM_GLES_SwapWindowDB\<close>: when the atomic commit
  fails, no buffer is released and \<open>windata->bo\<close> stays the recorded front buffer. When the
  steps before the commit succeed, the commit is issued; and when it returns success, the
  previous front buffer, if there is one, is released, once, after the lock of the new
  buffer and after the commit, nothing else is released, and the newly locked buffer is
  the recorded front buffer. No other run releases a buffer or changes \<open>windata->bo\<close>.
\<close>

theorem front_buffer_release_discipline:
  "front_buffer_discipline False env (windata (fst (recreate_if_dirty env s)))
     (KMSDRM_GLES_SwapWindow env s)
   \<and> front_buffer_discipline True env (windata (fst (recreate_if_dirty env s)))
     (KMSDRM_GLES_SwapWindowDB env s)
   \<and> (frame_prepared False env \<longrightarrow>
        drm_atomic_commit False \<in> set (snd (snd (KMSDRM_GLES_SwapWindow env s))))
   \<and> (frame_prepared True env \<longrightarrow>
        drm_atomic_commit True \<in> set (snd (snd (KMSDRM_GLES_SwapWindowDB env s))))"
  using SwapWindow_discipline [of env s] SwapWindowDB_discipline [of env s]
    SwapWindow_commits [of env s] SwapWindowDB_commits [of env s]
  by blast

theorem front_buffer_release_discipline_witness:
  "frame_prepared False env_ok \<and> frame_prepared True env_ok
   \<and> bo (windata state0) = Some 1
   \<and> releases (snd (snd (KMSDRM_GLES_SwapWindow env_ok state0))) = [gbm_surface_release_buffer 1]
   \<and> bo (windata (fst (snd (KMSDRM_GLES_SwapWindow env_ok state0)))) = Some 2
   \<and> drm_atomic_commit False \<in> set (calls_before (gbm_surface_release_buffer 1)
        (snd (snd (KMSDRM_GLES_SwapWindow env_ok state0))))
   \<and> releases (snd (snd (KMSDRM_GLES_SwapWindowDB env_ok state0))) = [gbm_surface_release_buffer 1]
   \<and> bo (windata (fst (snd (KMSDRM_GLES_SwapWindowDB env_ok state0)))) = Some 2
   \<and> gbm_surface_lock_front_buffer \<in> set (calls_before (gbm_surface_release_buffer 1)
        (snd (snd (KMSDRM_GLES_SwapWindowDB env_ok state0))))
   \<and> drm_atomic_commit True \<in> set (calls_before (gbm_surface_release_buffer 1)
        (snd (snd (KMSDRM_GLES_SwapWindowDB env_ok state0))))
   \<and> drm_atomic_commit True \<in> set (snd (snd (KMSDRM_GLES_SwapWindowDB
        (env_ok\<lparr>atomic_commit_result := (\<lambda>b. - 22)\<rparr>) state0)))
   \<and> releases (snd (snd (KMSDRM_GLES_SwapWindowDB
        (env_ok\<lparr>atomic_commit_result := (\<lambda>b. - 22)\<rparr>) state0))) = []
   \<and> bo (windata (fst (snd (KMSDRM_GLES_SwapWindowDB
        (env_ok\<lparr>atomic_commit_result := (\<lambda>b. - 22)\<rparr>) state0)))) = Some 1
   \<and> drm_atomic_commit False \<in> set (snd (snd (KMSDRM_GLES_SwapWindow
        (env_ok\<lparr>atomic_commit_result := (\<lambda>b. - 22)\<rparr>) state0)))
   \<and> releases (snd (snd (KMSDRM_GLES_SwapWindow
        (env_ok\<lparr>atomic_commit_result := (\<lambda>b. - 22)\<rparr>) state0))) = []
   \<and> bo (windata (fst (snd (KMSDRM_GLES_SwapWindow
        (env_ok\<lparr>atomic_commit_result := (\<lambda>b. - 22)\<rparr>) state0)))) = Some 1"
  using front_buffer_release_discipline [of env_ok state0]
    front_buffer_release_discipline [of "env_ok\<lparr>atomic_commit_result := (\<lambda>b. - 22)\<rparr>" state0]
  by (simp add: front_buffer_discipline_def frame_prepared_def is_release_def swap_defs
      example_defs)

text \<open>
  C3. In \<open>KMSDRM_GLES_SwapWindow\<close>, when \<open>eglSwapBuffers\<close> fails the function returns the error
  value with the error reported, and its call list holds no atomic commit (the commit count
  stays 0), no lock of a front buffer and no release; the window data, with \<open>bo\<close> and
  \<open>next_bo\<close>, is as it was when the frame started.
\<close>

theorem SwapWindow_swap_failure:
  assumes "\<not> eglSwapBuffers_result env" and "KMSDRM_GLES_SwapWindow env s = (r, s', cs)"
  shows "(r = AssertionFailed \<or> r = Returned SDL_SetError_ret)
    \<and> (eglSwapBuffers \<in> set cs \<longrightarrow>
          r = Returned SDL_SetError_ret \<and> last cs = SDL_SetError ''Failed to swap EGL buffers'')
    \<and> length (filter (\<lambda>c. c = drm_atomic_commit False \<or> c = drm_atomic_commit True) cs) = 0
    \<and> gbm_surface_lock_front_buffer \<notin> set cs
    \<and> (\<forall>b. gbm_surface_release_buffer b \<notin> set cs)
    \<and> windata s' = windata (fst (recreate_if_dirty env s))"
  using assms
  by (auto simp: KMSDRM_GLES_SwapWindow_def recreate_if_dirty_def
      EGL_NO_NATIVE_FENCE_FD_ANDROID_def Let_def split: option.splits if_splits)

theorem SwapWindow_swap_failure_witness:
  "KMSDRM_GLES_SwapWindow (env_ok\<lparr>eglSwapBuffers_result := False\<rparr>) state0 =
     (Returned (- 1), state0\<lparr>dispdata := display0\<lparr>gpu_fence := Some 7\<rparr>\<rparr>,
      [eglCreateSyncKHR (- 1), eglSwapBuffers, SDL_SetError ''Failed to swap EGL buffers''])
   \<and> windata (state0\<lparr>dispdata := display0\<lparr>gpu_fence := Some 7\<rparr>\<rparr>) = window0"
proof -
  have run: "KMSDRM_GLES_SwapWindow (env_ok\<lparr>eglSwapBuffers_result := False\<rparr>) state0 =
     (Returned (- 1), state0\<lparr>dispdata := display0\<lparr>gpu_fence := Some 7\<rparr>\<rparr>,
      [eglCreateSyncKHR (- 1), eglSwapBuffers, SDL_SetError ''Failed to swap EGL buffers''])"
    by (simp add: swap_defs example_defs)
  have "\<not> eglSwapBuffers_result (env_ok\<lparr>eglSwapBuffers_result := False\<rparr>)"
    by simp
  from SwapWindow_swap_failure [OF this run] run show ?thesis
    by (simp add: recreate_if_dirty_def example_defs)
qed

text \<open>
  C4. The claim: \<open>KMSDRM_GLES_SwapWindowDB\<close> aborts the frame like \<open>KMSDRM_GLES_SwapWindow\<close> when
  \<open>eglSwapBuffers\<close> fails. The code reports the error and goes on: with a driver whose
  other calls succeed it locks the front buffer, issues the blocking commit, releases the
  previous buffer and returns 0.
\<close>

theorem SwapWindowDB_continues_after_swap_failure:
  "KMSDRM_GLES_SwapWindowDB (env_ok\<lparr>eglSwapBuffers_result := False\<rparr>) state0 =
     (Returned 0, state0\<lparr>windata := window0\<lparr>bo := Some 2, next_bo := Some 2\<rparr>\<rparr>,
      [eglSwapBuffers, SDL_EGL_SetError ''Failed to swap EGL buffers'' ''eglSwapBuffers'',
       printf ''SwapWindow() failed: %s\<newline>'', gbm_surface_lock_front_buffer, KMSDRM_FBFromBO 2,
       drm_atomic_set_plane_props
         \<lparr>info_plane = 31, info_crtc_id = 41, info_fb_id = 9, info_src_w = 640,
          info_src_h = 480, info_crtc_w = 640, info_crtc_h = 480, info_crtc_x = 0\<rparr>,
       add_connector_property ''CRTC_ID'' 41, add_crtc_property ''ACTIVE'' 1,
       drm_atomic_commit True, gbm_surface_release_buffer 1])"
  by (simp add: swap_defs example_defs)


subsection \<open>Single-precision rounding\<close>

lemma bit_length_bounds:
  "0 < n \<Longrightarrow> 2 ^ (bit_length n - 1) \<le> n \<and> n < 2 ^ bit_length n"
proof (induction n rule: bit_length.induct)
  case (1 n)
  show ?case
  proof (cases "n div 2 = 0")
    case True
    with "1.prems" have "n = 1" by linarith
    then show ?thesis by (simp add: bit_length.simps)
  next
    case False
    then have pos: "0 < n div 2" by simp
    from "1.prems" have n0: "n \<noteq> 0" by simp
    from "1.IH" [OF n0 pos]
    have lo: "2 ^ (bit_length (n div 2) - 1) \<le> n div 2"
      and hi: "n div 2 < 2 ^ bit_length (n div 2)" by simp_all
    have bl: "bit_length n = Suc (bit_length (n div 2))"
      using n0 by (subst bit_length.simps) simp
    have b1: "0 < bit_length (n div 2)"
      using pos by (subst bit_length.simps) simp
    then have "(2::nat) ^ bit_length (n div 2) = 2 * 2 ^ (bit_length (n div 2) - 1)"
      by (cases "bit_length (n div 2)") simp_all
    with lo hi show ?thesis
      unfolding bl by (simp; linarith)
  qed
qed

lemma binade_bounds:
  assumes "0 < x"
  shows "2 powi binade x \<le> x \<and> x < 2 powi (binade x + 1)"
proof (cases "1 \<le> x")
  case True
  define n where "n = nat \<lfloor>x\<rfloor>"
  from True have n: "0 < n" "real n \<le> x" "x < real n + 1"
    unfolding n_def by (simp_all add: nat_less_iff)
  from bit_length_bounds [OF n(1)]
  have lo: "2 ^ (bit_length n - 1) \<le> n" and hi: "n < 2 ^ bit_length n" by simp_all
  from n(1) have bp: "0 < bit_length n" by (subst bit_length.simps) simp
  have b: "binade x = int (bit_length n - 1)"
    using True bp by (simp add: binade_def n_def of_nat_diff)
  have "(2::real) ^ (bit_length n - 1) \<le> real n" using of_nat_mono [OF lo, where 'a = real] by simp
  moreover have "(2::real) powi binade x = 2 ^ (bit_length n - 1)" unfolding b by simp
  ultimately have 1: "2 powi binade x \<le> x" using n(2) by linarith
  from hi have "n + 1 \<le> 2 ^ bit_length n" by simp
  from of_nat_mono [OF this, where 'a = real] have "real n + 1 \<le> 2 ^ bit_length n" by simp
  moreover have "binade x + 1 = int (bit_length n)" using b bp by simp
  then have "(2::real) powi (binade x + 1) = 2 ^ bit_length n" by simp
  ultimately have 2: "x < 2 powi (binade x + 1)" using n(3) by linarith
  from 1 2 show ?thesis ..
next
  case False
  then have x1: "x < 1" by simp
  define y where "y = 1 / x"
  have y1: "1 < y" using assms x1 by (simp add: y_def)
  define m where "m = nat (\<lceil>y\<rceil> - 1)"
  have c2: "2 \<le> \<lceil>y\<rceil>" using y1 by linarith
  then have m: "0 < m" "real m < y" "y \<le> real m + 1"
    unfolding m_def by (simp_all) linarith+
  define k where "k = bit_length m"
  from bit_length_bounds [OF m(1)]
  have lo: "2 ^ (k - 1) \<le> m" and hi: "m < 2 ^ k" by (simp_all add: k_def)
  from m(1) have kp: "0 < k" unfolding k_def by (subst bit_length.simps) simp
  have b: "binade x = - int k"
    using False by (simp add: binade_def k_def m_def y_def)
  from hi have "m + 1 \<le> 2 ^ k" by simp
  from of_nat_mono [OF this, where 'a = real] have "real m + 1 \<le> 2 ^ k" by simp
  then have "y \<le> 2 ^ k" using m(3) by linarith
  then have "1 / x \<le> 2 ^ k" by (simp add: y_def)
  then have "1 \<le> 2 ^ k * x" using assms by (simp add: field_simps)
  then have 1: "2 powi binade x \<le> x"
    unfolding b by (simp add: power_int_minus field_simps)
  have "(2::real) ^ (k - 1) \<le> real m" using of_nat_mono [OF lo, where 'a = real] by simp
  then have "2 ^ (k - 1) < y" using m(2) by linarith
  then have "2 ^ (k - 1) * x < 1" using assms by (simp add: y_def field_simps)
  moreover have "binade x + 1 = - int (k - 1)" using b kp by simp
  ultimately have 2: "x < 2 powi (binade x + 1)"
    by (simp add: power_int_minus field_simps)
  from 1 2 show ?thesis ..
qed

lemma round_half_even_bounds:
  "real_of_int (round_half_even y) \<le> y + 1 / 2 \<and> y - 1 / 2 \<le> real_of_int (round_half_even y)"
  unfolding round_half_even_def Let_def by (simp; linarith)

lemma round_half_even_of_int [simp]: "round_half_even (of_int z) = z"
  by (simp add: round_half_even_def)

lemma round_half_even_mono:
  assumes "x \<le> y"
  shows "round_half_even x \<le> round_half_even y"
proof (cases "\<lfloor>x\<rfloor> = \<lfloor>y\<rfloor>")
  case True
  with assms show ?thesis
    unfolding round_half_even_def Let_def by (simp; linarith)
next
  case False
  with assms have "\<lfloor>x\<rfloor> + 1 \<le> \<lfloor>y\<rfloor>" using floor_mono [OF assms] by linarith
  moreover have "round_half_even x \<le> \<lfloor>x\<rfloor> + 1"
    unfolding round_half_even_def Let_def by simp
  moreover have "\<lfloor>y\<rfloor> \<le> round_half_even y"
    unfolding round_half_even_def Let_def by simp
  ultimately show ?thesis by linarith
qed

lemma round_half_even_up:
  "1 / 2 < y - of_int \<lfloor>y\<rfloor> \<Longrightarrow> round_half_even y = \<lfloor>y\<rfloor> + 1"
  unfolding round_half_even_def Let_def by simp

lemma binary32_round_pos:
  assumes "0 < x" and "n = nat (23 - max (binade x) (- 126))" and "binade x \<le> 23"
  shows "binary32_round x = of_int (round_half_even (x * 2 ^ n)) / 2 ^ n"
proof -
  have "max (binade x) (- 126) - 23 = - int n" using assms(2,3) by simp
  then have "(2::real) powi (max (binade x) (- 126) - 23) = 1 / 2 ^ n"
    by (simp add: power_int_minus divide_inverse)
  then show ?thesis
    using assms(1) by (simp add: binary32_round_def Let_def)
qed

lemma binade_less:
  assumes "0 < x" "x < 2 powi e"
  shows "binade x < e"
proof (rule ccontr)
  assume "\<not> binade x < e"
  then have "e \<le> binade x" by simp
  from power_int_increasing [OF this, of "2::real"] binade_bounds [OF assms(1)] assms(2)
  show False by simp
qed

lemma binary32_round_floor:
  assumes "0 \<le> k" "k < 256" "of_int k \<le> x" "x \<le> of_int k + 1 - 1 / 2 ^ 16"
  shows "\<lfloor>binary32_round x\<rfloor> = k"
proof (cases "x = 0")
  case True
  with assms(1,3) have "k = 0" by simp
  with True show ?thesis by (simp add: binary32_round_def)
next
  case False
  with assms(1,3) have pos: "0 < x" by simp
  have "x < 2 powi 8" using assms(2,4) by simp
  from binade_less [OF pos this] have b7: "binade x \<le> 7" by simp
  define n where "n = nat (23 - max (binade x) (- 126))"
  have n16: "16 \<le> n" using b7 by (simp add: n_def)
  have r: "binary32_round x = of_int (round_half_even (x * 2 ^ n)) / 2 ^ n"
    using binary32_round_pos [OF pos n_def] b7 by simp
  define m where "m = round_half_even (x * 2 ^ n)"
  have "real_of_int (k * 2 ^ n) \<le> x * 2 ^ n" using assms(3) by simp
  from round_half_even_mono [OF this] have lo: "k * 2 ^ n \<le> m" by (simp only: round_half_even_of_int m_def)
  have "(2::real) ^ 16 \<le> 2 ^ n" using n16 by (intro power_increasing) simp_all
  then have "1 \<le> (2::real) ^ n / 2 ^ 16" by simp
  moreover have "x * 2 ^ n \<le> (of_int k + 1) * 2 ^ n - 2 ^ n / 2 ^ 16"
    using mult_right_mono [OF assms(4), of "2 ^ n"] by (simp add: algebra_simps)
  ultimately have "x * 2 ^ n \<le> real_of_int ((k + 1) * 2 ^ n - 1)" by simp
  from round_half_even_mono [OF this] have hi: "m \<le> (k + 1) * 2 ^ n - 1" by (simp only: round_half_even_of_int m_def)
  have p: "(0::real) < 2 ^ n" by simp
  from lo have "real_of_int (k * 2 ^ n) \<le> real_of_int m" by (rule iffD2 [OF of_int_le_iff])
  then have 1: "of_int k \<le> real_of_int m / 2 ^ n" using p by (simp add: field_simps)
  from hi have "real_of_int m \<le> real_of_int ((k + 1) * 2 ^ n - 1)" by (rule iffD2 [OF of_int_le_iff])
  then have "real_of_int m < (of_int k + 1) * 2 ^ n" by simp
  then have 2: "real_of_int m / 2 ^ n < of_int k + 1" using p by (simp add: field_simps)
  from 1 2 show ?thesis unfolding r m_def [symmetric] by (intro floor_unique) simp_all
qed

lemma binary32_round_of_int:
  assumes "0 \<le> k" "k < 2 ^ 24"
  shows "binary32_round (of_int k) = of_int k"
proof (cases "k = 0")
  case True
  then show ?thesis by (simp add: binary32_round_def)
next
  case False
  with assms(1) have pos: "0 < real_of_int k" by simp
  have "real_of_int k < 2 powi 24" using assms(2) 
    by (metis of_int_less_iff of_int_numeral of_int_power power_int_numeral)
  from binade_less [OF pos this] have b: "binade (of_int k) \<le> 23" by simp
  define n where "n = nat (23 - max (binade (real_of_int k)) (- 126))"
  have "real_of_int k * 2 ^ n = real_of_int (k * 2 ^ n)" by simp
  then have "round_half_even (real_of_int k * 2 ^ n) = k * 2 ^ n"
    by (simp only: round_half_even_of_int)
  then show ?thesis
    using binary32_round_pos [OF pos n_def b] by simp
qed

lemma binary32_round_le_1:
  assumes "0 < x" "x \<le> 1"
  shows "binary32_round x \<le> x + 1 / 2 ^ 24"
proof -
  have "x < 2 powi 1" using assms(2) by simp
  from binade_less [OF assms(1) this] have b: "binade x \<le> 0" by simp
  define n where "n = nat (23 - max (binade x) (- 126))"
  have n23: "23 \<le> n" using b by (simp add: n_def)
  have r: "binary32_round x = of_int (round_half_even (x * 2 ^ n)) / 2 ^ n"
    using binary32_round_pos [OF assms(1) n_def] b by simp
  have "(2::real) ^ 23 \<le> 2 ^ n" using n23 by (intro power_increasing) simp_all
  then have "1 / 2 \<le> (2::real) ^ n / 2 ^ 24" by simp
  with round_half_even_bounds [of "x * 2 ^ n"]
  have "real_of_int (round_half_even (x * 2 ^ n)) \<le> x * 2 ^ n + 2 ^ n / 2 ^ 24" by linarith
  then have "real_of_int (round_half_even (x * 2 ^ n)) / 2 ^ n \<le> (x * 2 ^ n + 2 ^ n / 2 ^ 24) / 2 ^ n"
    by (intro divide_right_mono) simp_all
  then show ?thesis unfolding r by (simp add: field_simps)
qed

lemma binary32_round_div255_ge:
  assumes "c < 256"
  shows "real c / 255 \<le> binary32_round (real c / 255)"
proof -
  consider "c = 0" | "c = 255" | "1 \<le> c" "c \<le> 254" using assms by linarith
  then show ?thesis
  proof cases
    case 1
    then show ?thesis by (simp add: binary32_round_def)
  next
    case 2
    then show ?thesis using binary32_round_of_int [of 1] by simp
  next
    case 3
    define x where "x = real c / 255"
    have pos: "0 < x" and x1: "x < 1" and xlo: "1 / 256 < x"
      using 3 by (simp_all add: x_def)
    define e where "e = binade x"
    from binade_bounds [OF pos] have lo: "2 powi e \<le> x" and hi: "x < 2 powi (e + 1)"
      by (simp_all add: e_def)
    have "x < 2 powi 0" using x1 by simp
    from binade_less [OF pos this] have e_neg: "e \<le> - 1" by (simp add: e_def)
    have e_ge: "- 8 \<le> e"
    proof (rule ccontr)
      assume "\<not> - 8 \<le> e"
      then have "e + 1 \<le> - 8" by simp
      from power_int_increasing [OF this, of "2::real"] hi xlo show False by simp
    qed
    define n where "n = nat (23 - max (binade x) (- 126))"
    have n: "int n = 23 - e" using e_neg e_ge by (simp add: n_def e_def)
    then have n24: "24 \<le> n" using e_neg by simp
    have r: "binary32_round x = of_int (round_half_even (x * 2 ^ n)) / 2 ^ n"
      using binary32_round_pos [OF pos n_def] e_neg by (simp add: e_def)
    define y where "y = x * 2 ^ n"
    have "e = 23 - int n" using n by simp
    then have pe: "(2::real) powi e = 2 ^ 23 / 2 ^ n"
      by (simp add: power_int_diff)
    have "e + 1 = 24 - int n" using n by simp
    then have pe1: "(2::real) powi (e + 1) = 2 ^ 24 / 2 ^ n"
      by (simp add: power_int_diff)
    have p: "(0::real) < 2 ^ n" by simp
    have ylo: "2 ^ 23 \<le> y" using lo p unfolding pe y_def by (simp add: field_simps)
    have yhi: "y < 2 ^ 24" using hi p unfolding pe1 y_def by (simp add: field_simps)
    define v where "v = c * 2 ^ (n - 24)"
    have "(2::real) ^ n = 2 ^ (n - 24) * 2 ^ 24"
      using power_add [of "2::real" "n - 24" 24] n24 by simp
    then have yv: "y = real v * 2 ^ 24 / 255" by (simp add: y_def x_def v_def)
    then have yv2: "y = real (v * 65793) + real v / 255" by simp
    from ylo yv have "255 \<le> 2 * real v" by simp
    then have "255 \<le> 2 * v" by linarith
    then have v128: "128 \<le> v" by simp
    from yhi yv have "real v < 255" by simp
    then have v255: "v < 255" by simp
    have fl: "\<lfloor>y\<rfloor> = int (v * 65793)"
      unfolding yv2 using v255 by (intro floor_unique) simp_all
    have "y - of_int \<lfloor>y\<rfloor> = real v / 255" unfolding fl unfolding yv2 by simp
    moreover have "1 / 2 < real v / 255" using v128 by simp
    ultimately have "round_half_even y = \<lfloor>y\<rfloor> + 1"
      by (intro round_half_even_up) simp
    then have "y \<le> real_of_int (round_half_even y)" by linarith
    then have "y / 2 ^ n \<le> real_of_int (round_half_even y) / 2 ^ n"
      by (intro divide_right_mono) simp_all
    then show ?thesis
      unfolding x_def [symmetric] r y_def by simp
  qed
qed

lemma premultiplied_value:
  assumes "a < 256" "c < 256"
  shows "\<lfloor>binary32_round (real a * binary32_round (real c / 255))\<rfloor> = int (a * c div 255)"
proof -
  define q where "q = binary32_round (real c / 255)"
  define k where "k = a * c div 255"
  have qlo: "real c / 255 \<le> q"
    unfolding q_def using assms(2) by (rule binary32_round_div255_ge)
  have qhi: "q \<le> real c / 255 + 1 / 2 ^ 24"
  proof (cases "c = 0")
    case True
    then show ?thesis by (simp add: q_def binary32_round_def)
  next
    case False
    with assms(2) show ?thesis unfolding q_def by (intro binary32_round_le_1) simp_all
  qed
  have "a * c = 255 * k + a * c mod 255" by (simp add: k_def)
  moreover have "a * c mod 255 \<le> 254" 
    using pos_mod_bound [of 255 "int (a * c)"] by linarith
  ultimately have ac: "255 * k \<le> a * c" "a * c \<le> 255 * k + 254" by linarith+
  from ac(1) have "real (255 * k) \<le> real (a * c)" by (rule iffD2 [OF of_nat_le_iff])
  then have l1: "real k \<le> real a * real c / 255" by simp
  from ac(2) have "real (a * c) \<le> real (255 * k + 254)" by (rule iffD2 [OF of_nat_le_iff])
  then have u1: "real a * real c / 255 \<le> real k + 254 / 255" by simp
  have a255: "real a \<le> 255" using assms(1) by simp
  have "real a * (real c / 255) \<le> real a * q" using qlo by (intro mult_left_mono) simp_all
  with l1 have lo: "real_of_int (int k) \<le> real a * q" by simp
  have "real a * q \<le> real a * (real c / 255 + 1 / 2 ^ 24)"
    using qhi by (intro mult_left_mono) simp_all
  also have "\<dots> = real a * real c / 255 + real a / 2 ^ 24" by (simp add: algebra_simps)
  also have "\<dots> \<le> real k + 254 / 255 + 255 / 2 ^ 24"
    using u1 a255 by (intro add_mono) simp_all
  also have "\<dots> \<le> real k + 1 - 1 / 2 ^ 16" by simp
  finally have hi: "real a * q \<le> real_of_int (int k) + 1 - 1 / 2 ^ 16" by simp
  have "a * c \<le> 255 * 255" using assms by (intro mult_mono) simp_all
  then have "k < 256" unfolding k_def by simp
  then have "int k < 256" "0 \<le> int k" by simp_all
  from binary32_round_floor [OF this(2) this(1) lo hi] show ?thesis
    by (simp add: q_def k_def)
qed

lemma binary32_round_byte: "a < 256 \<Longrightarrow> binary32_round (real a) = real a"
  using binary32_round_of_int [of "int a"] by simp

lemma premultiply_channel:
  fixes A C :: u32
  assumes "unat A < 256" "unat C < 256"
  shows "uint32_of_float (float_mul (float_of_uint32 A)
           (float_div (float_of_uint32 C) (float_of_int 255))) = of_nat (unat A * unat C div 255)"
proof -
  have A: "float_of_uint32 A = real (unat A)"
    unfolding float_of_uint32_def using assms(1) by (rule binary32_round_byte)
  have C: "float_of_uint32 C = real (unat C)"
    unfolding float_of_uint32_def using assms(2) by (rule binary32_round_byte)
  have F: "float_of_int 255 = 255"
    using binary32_round_of_int [of 255] by (simp add: float_of_int_def)
  define r where "r = binary32_round (real (unat A) * binary32_round (real (unat C) / 255))"
  have fl: "\<lfloor>r\<rfloor> = int (unat A * unat C div 255)"
    unfolding r_def using assms by (rule premultiplied_value)
  then have "0 \<le> \<lfloor>r\<rfloor>" by simp
  then have "0 \<le> r" by simp
  then show ?thesis
    unfolding uint32_of_float_def float_mul_def float_div_def A C F r_def [symmetric]
    by (simp add: fl)
qed

lemma xFF: "(0xFF :: u32) = mask 8"
  by (simp add: mask_eq_exp_minus_1)

lemma unat_channel: "unat ((w::u32) AND 0xFF) < 256"
proof -
  have "w AND mask 8 < 2 ^ 8"
    by (rule and_mask_less_size) (simp add: word_size)
  then show ?thesis
    unfolding xFF by (simp add: word_less_nat_alt)
qed

lemma channel_bounds [simp]:
  "alpha_of p < 256" "red_of p < 256" "green_of p < 256" "blue_of p < 256"
  by (simp_all add: alpha_of_def red_of_def green_of_def blue_of_def unat_channel)

lemma take_bit_byte: "k < 256 \<Longrightarrow> take_bit 8 (of_nat k :: u32) = of_nat k"
  by (simp add: take_bit_of_nat take_bit_nat_eq_self)

lemma unat_byte: "k < 256 \<Longrightarrow> unat (of_nat k :: u32) = k"
  by (simp add: unat_of_nat)

lemma channels_of_take_bit:
  fixes a r g b :: u32
  defines "p \<equiv> push_bit 24 (take_bit 8 a) OR push_bit 16 (take_bit 8 r)
                 OR push_bit 8 (take_bit 8 g) OR push_bit 0 (take_bit 8 b)"
  shows "drop_bit 24 p AND 0xFF = take_bit 8 a"
    and "drop_bit 16 p AND 0xFF = take_bit 8 r"
    and "drop_bit 8 p AND 0xFF = take_bit 8 g"
    and "drop_bit 0 p AND 0xFF = take_bit 8 b"
  unfolding p_def xFF
  by (rule bit_word_eqI; auto simp: bit_simps)+

lemma channels_of_ARGB8888:
  assumes "a < 256" "r < 256" "g < 256" "b < 256"
  shows "alpha_of (ARGB8888 a r g b) = a" "red_of (ARGB8888 a r g b) = r"
    "green_of (ARGB8888 a r g b) = g" "blue_of (ARGB8888 a r g b) = b"
  using channels_of_take_bit [of "of_nat a" "of_nat r" "of_nat g" "of_nat b"] assms
  by (simp_all add: take_bit_byte unat_byte ARGB8888_def alpha_of_def red_of_def green_of_def
      blue_of_def)

lemma ARGB8888_channels: "ARGB8888 (alpha_of p) (red_of p) (green_of p) (blue_of p) = p"
  unfolding ARGB8888_def alpha_of_def red_of_def green_of_def blue_of_def of_nat_unat ucast_id xFF
proof (rule bit_word_eqI)
  fix n
  assume "n < LENGTH(32)"
  then show "bit (push_bit 24 (drop_bit 24 p AND mask 8) OR push_bit 16 (drop_bit 16 p AND mask 8)
      OR push_bit 8 (drop_bit 8 p AND mask 8) OR push_bit 0 (drop_bit 0 p AND mask 8)) n = bit p n"
    by (cases "n < 8"; cases "n < 16"; cases "n < 24") (auto simp: bit_simps)
qed

lemma alpha_premultiply_channels:
  "alpha_premultiply_ARGB8888 p =
     ARGB8888 (alpha_of p) (alpha_of p * red_of p div 255) (alpha_of p * green_of p div 255)
       (alpha_of p * blue_of p div 255)"
  by (simp add: alpha_premultiply_ARGB8888_def Let_def premultiply_channel unat_channel
      ARGB8888_def alpha_of_def red_of_def green_of_def blue_of_def)

lemma premultiplied_le: "a < 256 \<Longrightarrow> a * c div 255 \<le> (c::nat)"
proof -
  assume "a < 256"
  then have "a * c \<le> 255 * c" by (intro mult_right_mono) simp_all
  then have "a * c div 255 \<le> 255 * c div 255" by (rule div_le_mono)
  then show ?thesis by simp
qed

subsection \<open>Alpha premultiplication\<close>

text \<open>
  The specification's formula rounds to the nearest integer. The code does not: for the
  pixel with alpha 1 and red 128 it gives red 0, where the formula gives 1.
\<close>

theorem alpha_premultiply_rounding_counterexample:
  "alpha_premultiply_ARGB8888 0x01800000 = 0x01000000
   \<and> claimed_premultiply 0x01800000 = 0x01010000
   \<and> alpha_premultiply_ARGB8888 0x01800000 \<noteq> claimed_premultiply 0x01800000"
proof -
  have c: "alpha_of 0x01800000 = 1" "red_of 0x01800000 = 128" "green_of 0x01800000 = 0"
    "blue_of 0x01800000 = 0"
    by (simp_all add: alpha_of_def red_of_def green_of_def blue_of_def)
  have "round (128 / 255 :: real) = 1" by (simp add: round_def)
  then show ?thesis
    by (simp add: alpha_premultiply_channels claimed_premultiply_def c ARGB8888_def)
qed

text \<open>
  C2, as the code has it. For every pixel, \<open>alpha_premultiply_ARGB8888\<close> leaves alpha
  unchanged and replaces every colour channel \<open>C\<close> by \<open>A * C div 255\<close>: the product with
  alpha divided by 255, with the fraction discarded (the conversion of the \<^verbatim>\<open>float\<close> product
  to \<^verbatim>\<open>uint32_t\<close>), not rounded to the nearest integer.
\<close>

theorem alpha_premultiply_truncates:
  "alpha_of (alpha_premultiply_ARGB8888 p) = alpha_of p
   \<and> red_of (alpha_premultiply_ARGB8888 p) = alpha_of p * red_of p div 255
   \<and> green_of (alpha_premultiply_ARGB8888 p) = alpha_of p * green_of p div 255
   \<and> blue_of (alpha_premultiply_ARGB8888 p) = alpha_of p * blue_of p div 255"
proof -
  have le: "alpha_of p * c div 255 \<le> c" for c by (rule premultiplied_le) simp
  have "alpha_of p * red_of p div 255 < 256" "alpha_of p * green_of p div 255 < 256"
    "alpha_of p * blue_of p div 255 < 256"
    using le [of "red_of p"] le [of "green_of p"] le [of "blue_of p"]
      channel_bounds [of p] by linarith+
  then show ?thesis
    unfolding alpha_premultiply_channels by (simp add: channels_of_ARGB8888)
qed

text \<open>
  C7. Every channel of the result is at most the channel of the input; with alpha 0 the
  three colour channels of the result are 0; with alpha 255 the result is the input.
\<close>

theorem alpha_premultiply_bounds:
  "alpha_of (alpha_premultiply_ARGB8888 p) \<le> alpha_of p
   \<and> red_of (alpha_premultiply_ARGB8888 p) \<le> red_of p
   \<and> green_of (alpha_premultiply_ARGB8888 p) \<le> green_of p
   \<and> blue_of (alpha_premultiply_ARGB8888 p) \<le> blue_of p
   \<and> (alpha_of p = 0 \<longrightarrow> red_of (alpha_premultiply_ARGB8888 p) = 0
        \<and> green_of (alpha_premultiply_ARGB8888 p) = 0 \<and> blue_of (alpha_premultiply_ARGB8888 p) = 0)
   \<and> (alpha_of p = 255 \<longrightarrow> alpha_premultiply_ARGB8888 p = p)"
proof -
  have le: "alpha_of p * c div 255 \<le> c" for c by (rule premultiplied_le) simp
  have b: "alpha_of p * red_of p div 255 < 256" "alpha_of p * green_of p div 255 < 256"
    "alpha_of p * blue_of p div 255 < 256"
    using le [of "red_of p"] le [of "green_of p"] le [of "blue_of p"]
      channel_bounds [of p] by linarith+
  have "alpha_of p = 255 \<Longrightarrow> alpha_premultiply_ARGB8888 p = p"
    using ARGB8888_channels [of p] by (simp add: alpha_premultiply_channels)
  then show ?thesis
    unfolding alpha_premultiply_channels
    using le b by (auto simp add: channels_of_ARGB8888)
qed

theorem alpha_premultiply_bounds_witness:
  "red_of (alpha_premultiply_ARGB8888 0x00FFFFFF) = 0
   \<and> green_of (alpha_premultiply_ARGB8888 0x00FFFFFF) = 0
   \<and> blue_of (alpha_premultiply_ARGB8888 0x00FFFFFF) = 0
   \<and> alpha_premultiply_ARGB8888 0xFF123456 = 0xFF123456"
proof -
  have "alpha_of 0x00FFFFFF = 0" "alpha_of 0xFF123456 = 255"
    by (simp_all add: alpha_of_def)
  with alpha_premultiply_bounds [of "0x00FFFFFF"] alpha_premultiply_bounds [of "0xFF123456"]
  show ?thesis by simp
qed


subsection \<open>Hardware cursor\<close>

lemmas cursor_defs = KMSDRM_ShowCursor_def hide_display_cursor_def current_curdata_def
  uint32_of_int_def
  set_crtc_id_def focus_display_def focus_dispdata_def owning_crtc_def SDL_SetError_ret_def
  KMSDRM_WarpMouseGlobal_def KMSDRM_WarpMouse_def SDL_SendMouseMotion_effect_def
  pointer_position_def

lemmas cursor_example_defs = cursor0_def mouse0_def cursor_state0_def cursor_env_ok_def

lemmas create_defs = KMSDRM_CreateCursor_def copy_surface_def copy_pixel_def cleanup_def Let_def
  uint32_of_uint64_def int_of_uint64_def uint32_of_int_def

lemma alpha_premultiply_opaque: "alpha_of p = 255 \<Longrightarrow> alpha_premultiply_ARGB8888 p = p"
  using ARGB8888_channels [of p] by (simp add: alpha_premultiply_channels)

lemma opaque_red: "alpha_premultiply_ARGB8888 0xFFFF0000 = 0xFFFF0000"
  by (rule alpha_premultiply_opaque) (simp add: alpha_of_def)

lemma opaque_green: "alpha_premultiply_ARGB8888 0xFF00FF00 = 0xFF00FF00"
  by (rule alpha_premultiply_opaque) (simp add: alpha_of_def)

text \<open>
  C5. The claim: the pixel at \<open>(row, col)\<close> goes to the byte offset
  \<open>row * nativeStride + col * 4\<close> of the staging buffer, and nothing is written past its
  \<open>nativeStride * cursorHeight\<close> bytes. The code steps rows by \<^verbatim>\<open>curdata->w\<close> cells and never
  compares the surface with the cursor size. With a 64 by 64 cursor whose buffer object has
  a stride of 512 bytes, the pixel of row 1 lands in cell 64 (byte 256, not 512); with a
  stride of 256 bytes and a surface of 65 rows, row 64 is written past the end of the
  16384 bytes.
\<close>

theorem CreateCursor_copy_ignores_stride_and_size:
  "KMSDRM_CreateCursor
     (create_env_ok\<lparr>gbm_bo_create_result :=
        (\<lambda>w h. Some \<lparr>bo_handle = 3, bo_stride = 512, bo_device_fd = 4\<rparr>)\<rparr>)
     (surface_of 1 2 [0xFFFF0000, 0xFF00FF00]) 0 0 =
   (Returned (Some \<lparr>driverdata = Some \<lparr>cursor_bo =
        Some \<lparr>bo_handle = 3, bo_stride = 512, bo_device_fd = 4\<rparr>,
        crtc_id = 0, hot_x = 0, hot_y = 0, cursor_w = 64, cursor_h = 64\<rparr>\<rparr>),
    [gbm_device_is_format_supported, SDL_calloc CursorStruct True,
     SDL_calloc CursorDataStruct True, drmGetCap ''DRM_CAP_CURSOR_WIDTH'',
     drmGetCap ''DRM_CAP_CURSOR_HEIGHT'', gbm_bo_create 64 64 True,
     SDL_malloc StagingBuffer 32768 True,
     gbm_bo_write 3 ((replicate 8192 0)[0 := 0xFFFF0000, 64 := 0xFF00FF00]) 32768,
     SDL_free StagingBuffer])
   \<and> fst (KMSDRM_CreateCursor create_env_ok (surface_of 1 65 (replicate 65 0xFF000000)) 0 0)
     = MemoryFault"
  by (simp add: create_defs create_env_ok_def surface_of_def for_loop.simps opaque_red
      opaque_green)

theorem CreateCursor_copy_ignores_stride_and_size_witness:
  "(\<exists>buffer. gbm_bo_write 3 buffer (512 * 64) \<in> set (snd (KMSDRM_CreateCursor
        (create_env_ok\<lparr>gbm_bo_create_result :=
           (\<lambda>w h. Some \<lparr>bo_handle = 3, bo_stride = 512, bo_device_fd = 4\<rparr>)\<rparr>)
        (surface_of 1 2 [0xFFFF0000, 0xFF00FF00]) 0 0))
      \<and> buffer ! (1 * 256 div 4) = 0xFF00FF00 \<and> buffer ! (1 * 512 div 4) = 0)
   \<and> fst (KMSDRM_CreateCursor create_env_ok (surface_of 1 65 (replicate 65 0xFF000000)) 0 0)
       = MemoryFault"
  using CreateCursor_copy_ignores_stride_and_size by simp

lemma CreateCursor_zero_width_rejected:
  "KMSDRM_CreateCursor (create_env_ok\<lparr>drmGetCap_width := (0, 0)\<rparr>)
     (surface_of 1 1 [0xFF000000]) 0 0 =
   (Returned None,
    [gbm_device_is_format_supported, SDL_calloc CursorStruct True,
     SDL_calloc CursorDataStruct True, drmGetCap ''DRM_CAP_CURSOR_WIDTH'',
     drmGetCap ''DRM_CAP_CURSOR_HEIGHT'', SDL_SetError ''Could not get an usable GBM cursor size'',
     SDL_free CursorStruct, SDL_free CursorDataStruct])"
  by (simp add: create_defs create_env_ok_def surface_of_def)

lemma CreateCursor_failure_releases_all:
  assumes "KMSDRM_CreateCursor env surface hx hy = (Returned None, cs)"
  shows "live_resources cs = []"
  using assms
  by (auto simp: KMSDRM_CreateCursor_def cleanup_def Let_def live_resources_def track_def
      split: if_splits option.splits)

text \<open>
  C6. The claim: every failure of \<open>KMSDRM_CreateCursor\<close>, a usable cursor height of zero
  among them, ends with an error, no cursor and nothing left allocated. The size test reads
  \<^verbatim>\<open>usable_cursor_w == 0 || usable_cursor_w == 0\<close>: a zero height passes it. With a driver
  that reports 64 by 0 and creates the buffer object, the code allocates a staging buffer
  of 0 bytes and writes the first pixel past its end, with no error reported and four
  resources still allocated. A zero width is caught, and every run that returns no cursor
  has released everything.
\<close>

theorem CreateCursor_zero_height_not_rejected:
  "KMSDRM_CreateCursor (create_env_ok\<lparr>drmGetCap_height := (0, 0)\<rparr>)
     (surface_of 1 1 [0xFF000000]) 0 0 =
   (MemoryFault,
    [gbm_device_is_format_supported, SDL_calloc CursorStruct True,
     SDL_calloc CursorDataStruct True, drmGetCap ''DRM_CAP_CURSOR_WIDTH'',
     drmGetCap ''DRM_CAP_CURSOR_HEIGHT'', gbm_bo_create 64 0 True,
     SDL_malloc StagingBuffer 0 True])
   \<and> live_resources (snd (KMSDRM_CreateCursor (create_env_ok\<lparr>drmGetCap_height := (0, 0)\<rparr>)
         (surface_of 1 1 [0xFF000000]) 0 0)) =
       [StagingBuffer, BufferObject, CursorDataStruct, CursorStruct]"
  by (simp add: create_defs create_env_ok_def surface_of_def for_loop.simps
      live_resources_def track_def)

theorem CreateCursor_zero_height_not_rejected_witness:
  "fst (KMSDRM_CreateCursor (create_env_ok\<lparr>drmGetCap_height := (0, 0)\<rparr>)
         (surface_of 1 1 [0xFF000000]) 0 0) = MemoryFault
   \<and> (\<forall>msg. SDL_SetError msg \<notin> set (snd (KMSDRM_CreateCursor
         (create_env_ok\<lparr>drmGetCap_height := (0, 0)\<rparr>) (surface_of 1 1 [0xFF000000]) 0 0)))
   \<and> length (live_resources (snd (KMSDRM_CreateCursor
         (create_env_ok\<lparr>drmGetCap_height := (0, 0)\<rparr>) (surface_of 1 1 [0xFF000000]) 0 0))) = 4"
proof -
  have run: "KMSDRM_CreateCursor (create_env_ok\<lparr>drmGetCap_height := (0, 0)\<rparr>)
      (surface_of 1 1 [0xFF000000]) 0 0 =
    (MemoryFault,
     [gbm_device_is_format_supported, SDL_calloc CursorStruct True,
      SDL_calloc CursorDataStruct True, drmGetCap ''DRM_CAP_CURSOR_WIDTH'',
      drmGetCap ''DRM_CAP_CURSOR_HEIGHT'', gbm_bo_create 64 0 True,
      SDL_malloc StagingBuffer 0 True])"
    by (rule conjunct1 [OF CreateCursor_zero_height_not_rejected])
  have live: "live_resources (snd (KMSDRM_CreateCursor
      (create_env_ok\<lparr>drmGetCap_height := (0, 0)\<rparr>) (surface_of 1 1 [0xFF000000]) 0 0)) =
    [StagingBuffer, BufferObject, CursorDataStruct, CursorStruct]"
    by (rule conjunct2 [OF CreateCursor_zero_height_not_rejected])
  show ?thesis
    unfolding live unfolding run by simp
qed

text \<open>
  Hiding a cursor that is already hidden does not always succeed: it falls through to
  hiding on the display of the focused window, and with no focused window the call returns
  the error value.
\<close>

theorem ShowCursor_hide_hidden_counterexample:
  "mouse (cursor_state0\<lparr>mouse := Some (mouse0\<lparr>focus := None\<rparr>)\<rparr>) = Some (mouse0\<lparr>focus := None\<rparr>)
   \<and> owning_crtc (cursor_state0\<lparr>mouse := Some (mouse0\<lparr>focus := None\<rparr>)\<rparr>) 10 = Some 0
   \<and> fst (KMSDRM_ShowCursor cursor_env_ok None
            (cursor_state0\<lparr>mouse := Some (mouse0\<lparr>focus := None\<rparr>)\<rparr>)) = - 1"
  by (simp add: cursor_defs cursor_example_defs)

text \<open>
  C8, as the code has it. When the current cursor is already hidden (its owning controller
  is 0), \<open>KMSDRM_ShowCursor\<close> with no cursor leaves the whole state, every cursor with it, as
  it was, and returns 0 exactly when the display of the focused window has a non-zero
  controller and \<^verbatim>\<open>drmModeSetCursor\<close> succeeds on it. After a first show that returned 0, the
  owning controller of the cursor is that of the focused window's display, and a second
  show of the same cursor, whatever the driver answers, leaves it so.
\<close>

theorem ShowCursor_idempotence:
  "(mouse s = Some m \<and> current_curdata s m = Some (p, curdata) \<and> crtc_id curdata = 0 \<longrightarrow>
      fst (snd (KMSDRM_ShowCursor env None s)) = s
    \<and> (fst (KMSDRM_ShowCursor env None s) = 0 \<longleftrightarrow>
         (\<exists>dd. focus_dispdata s m = Some dd \<and> display_crtc_id dd \<noteq> 0
             \<and> drmModeSetCursor_result env (display_crtc_id dd) 0 = 0)))
   \<and> (KMSDRM_ShowCursor env1 (Some cp) s = (0, s1, c1) \<longrightarrow>
        owning_crtc (fst (snd (KMSDRM_ShowCursor env2 (Some cp) s1))) cp = owning_crtc s1 cp
      \<and> (\<exists>m dd. mouse s = Some m \<and> focus_dispdata s m = Some dd
             \<and> owning_crtc s1 cp = Some (display_crtc_id dd)))"
  apply (intro conjI impI)
  subgoal
    by (auto simp: KMSDRM_ShowCursor_def hide_display_cursor_def Let_def SDL_SetError_ret_def
        split: option.splits)
  subgoal
    by (auto simp: KMSDRM_ShowCursor_def hide_display_cursor_def Let_def SDL_SetError_ret_def
        split: option.splits)
  subgoal
    by (auto simp: cursor_defs Let_def split: option.splits if_splits)
  subgoal
    by (auto simp: cursor_defs Let_def split: option.splits if_splits)
  done

theorem ShowCursor_idempotence_witness:
  "KMSDRM_ShowCursor cursor_env_ok None cursor_state0 =
     (0, cursor_state0, [drmModeSetCursor 4 41 0 0 0])
   \<and> owning_crtc (fst (snd (KMSDRM_ShowCursor cursor_env_ok (Some 10) cursor_state0))) 10 = Some 41
   \<and> owning_crtc (fst (snd (KMSDRM_ShowCursor cursor_env_ok (Some 10)
        (fst (snd (KMSDRM_ShowCursor cursor_env_ok (Some 10) cursor_state0)))))) 10 = Some 41"
proof -
  have hidden: "mouse cursor_state0 = Some mouse0
      \<and> current_curdata cursor_state0 mouse0 = Some (10, the (driverdata cursor0))
      \<and> crtc_id (the (driverdata cursor0)) = 0"
    by (simp add: current_curdata_def cursor_example_defs)
  have first: "KMSDRM_ShowCursor cursor_env_ok (Some 10) cursor_state0 =
      (0, set_crtc_id 10 41 cursor_state0, [drmModeSetCursor 4 41 3 64 64])"
    by (simp add: cursor_defs cursor_example_defs)
  from ShowCursor_idempotence [of cursor_state0 mouse0 10 "the (driverdata cursor0)"
      cursor_env_ok cursor_env_ok 10 "set_crtc_id 10 41 cursor_state0"
      "[drmModeSetCursor 4 41 3 64 64]" cursor_env_ok] hidden first
  show ?thesis
    by (simp add: cursor_defs cursor_example_defs)
qed




end
